theory Spec2Isabelle
  imports Main
begin

section \<open>JavaScript values\<close>

text \<open>
  The adapter works on loosely typed values: the parts returned by the tool call and the
  content blocks inside them are plain JavaScript values. They are modelled by one
  datatype. An object is an association list of its own properties, in insertion order;
  a lookup takes the first binding of a key. A number is held as the text that
  JavaScript's string conversion gives for it, which is all the adapter ever does with a
  number besides testing it for truth. A character of a string stands for one code unit.
\<close>

datatype json =
    JUndefined
  | JNull
  | JBool bool
  | JNum string
  | JStr string
  | JArr "json list"
  | JObj "(string \<times> json) list"

datatype error = TypeError

text \<open>Sequencing of computations that may throw.\<close>

definition bindE :: "error + 'a \<Rightarrow> ('a \<Rightarrow> error + 'b) \<Rightarrow> error + 'b" where
  "bindE m f = (case m of Inl e \<Rightarrow> Inl e | Inr x \<Rightarrow> f x)"

text \<open>\<open>!!v\<close>: the values that count as true in a condition.\<close>

fun truthy :: "json \<Rightarrow> bool" where
  "truthy JUndefined = False"
| "truthy JNull = False"
| "truthy (JBool b) = b"
| "truthy (JNum r) = (r \<noteq> ''0'' \<and> r \<noteq> ''NaN'')"
| "truthy (JStr s) = (s \<noteq> [])"
| "truthy (JArr xs) = True"
| "truthy (JObj kvs) = True"

text \<open>\<open>typeof v\<close>.\<close>

fun typeof :: "json \<Rightarrow> string" where
  "typeof JUndefined = ''undefined''"
| "typeof JNull = ''object''"
| "typeof (JBool b) = ''boolean''"
| "typeof (JNum r) = ''number''"
| "typeof (JStr s) = ''string''"
| "typeof (JArr xs) = ''object''"
| "typeof (JObj kvs) = ''object''"

fun nullish :: "json \<Rightarrow> bool" where
  "nullish JUndefined = True"
| "nullish JNull = True"
| "nullish v = False"

text \<open>
  \<open>v.k\<close> on a value that is neither \<open>null\<close> nor \<open>undefined\<close>, for the property names
  the adapter reads (\<open>type\<close>, \<open>text\<close>, \<open>data\<close>, \<open>mimeType\<close>, \<open>resource\<close>, \<open>uri\<close>,
  \<open>blob\<close>, \<open>title\<close>, \<open>name\<close>, \<open>functionResponse\<close>, \<open>response\<close>, \<open>content\<close>,
  \<open>isError\<close>): none of them is a property of a primitive or of an array, so only an
  object can answer with something other than \<open>undefined\<close>. On \<open>null\<close> and
  \<open>undefined\<close> the access throws; the callers test \<open>nullish\<close> first and model the throw.
\<close>

fun getProp :: "json \<Rightarrow> string \<Rightarrow> json" where
  "getProp (JObj kvs) k = (case map_of kvs k of Some v \<Rightarrow> v | None \<Rightarrow> JUndefined)"
| "getProp v k = JUndefined"

text \<open>\<open>v?.k\<close>: optional chaining.\<close>

definition optProp :: "json \<Rightarrow> string \<Rightarrow> json" where
  "optProp v k = (if nullish v then JUndefined else getProp v k)"

text \<open>\<open>k in v\<close> for an object or array \<open>v\<close> and the same property names.\<close>

fun hasKey :: "string \<Rightarrow> json \<Rightarrow> bool" where
  "hasKey k (JObj kvs) = (map_of kvs k \<noteq> None)"
| "hasKey k v = False"

text \<open>\<open>Array.isArray(v)\<close>.\<close>

fun isArray :: "json \<Rightarrow> bool" where
  "isArray (JArr xs) = True"
| "isArray v = False"

text \<open>The newline character and the apostrophe, for string literals.\<close>

definition NL :: string where
  "NL = [CHR 0x0A]"

definition APOS :: string where
  "APOS = [CHR 0x27]"

text \<open>
  String conversion, as a template literal, \<open>JSON.parse\<close> and
  \<open>Array.prototype.join\<close> perform it on the values that a parsed JSON text can hold.
  An array is converted as its elements joined by commas (\<open>null\<close> and \<open>undefined\<close>
  elements are empty); an object is \<open>[object Object]\<close>, unless it has an own property
  named \<open>toString\<close>: that property shadows the inherited method and is never callable
  in such a value, the inherited \<open>valueOf\<close> returns the object itself, and the
  conversion throws a \<open>TypeError\<close>. \<open>stringConvertible\<close> says that the conversion
  returns, \<open>toStringJS\<close> is the text it returns then, and \<open>toStringOrThrow\<close> is
  the conversion itself.
\<close>

fun joinWith :: "string \<Rightarrow> string list \<Rightarrow> string" where
  "joinWith sep [] = []"
| "joinWith sep [s] = s"
| "joinWith sep (s # t # ss) = s @ sep @ joinWith sep (t # ss)"

fun toStringJS :: "json \<Rightarrow> string" where
  "toStringJS JUndefined = ''undefined''"
| "toStringJS JNull = ''null''"
| "toStringJS (JBool b) = (if b then ''true'' else ''false'')"
| "toStringJS (JNum r) = r"
| "toStringJS (JStr s) = s"
| "toStringJS (JArr xs) =
     joinWith '','' (map (\<lambda>x. if nullish x then [] else toStringJS x) xs)"
| "toStringJS (JObj kvs) = ''[object Object]''"

fun stringConvertible :: "json \<Rightarrow> bool" where
  "stringConvertible (JArr xs) = list_all stringConvertible xs"
| "stringConvertible (JObj kvs) = (map_of kvs ''toString'' = None)"
| "stringConvertible v = True"

definition toStringOrThrow :: "json \<Rightarrow> error + string" where
  "toStringOrThrow v = (if stringConvertible v then Inr (toStringJS v) else Inl TypeError)"

text \<open>\<open>xs.join(sep)\<close>: it converts every element but \<open>null\<close> and \<open>undefined\<close>.\<close>

definition joinJS :: "string \<Rightarrow> json list \<Rightarrow> error + string" where
  "joinJS sep xs =
     (if list_all stringConvertible xs
      then Inr (joinWith sep (map (\<lambda>x. if nullish x then [] else toStringJS x) xs))
      else Inl TypeError)"

section \<open>Tool names\<close>

text \<open>
  \<open>generateValidName\<close>: every code unit outside \<open>[a-zA-Z0-9_.-]\<close> becomes an
  underscore (\<open>replaceInvalid\<close> is the call of \<open>replace\<close> with that pattern); a name
  longer than 63 keeps its first 28 and its last 32 code units around three underscores.
\<close>

definition validNameChar :: "char \<Rightarrow> bool" where
  "validNameChar c =
     (let n = (of_char c :: nat)
      in (97 \<le> n \<and> n \<le> 122) \<or> (65 \<le> n \<and> n \<le> 90) \<or> (48 \<le> n \<and> n \<le> 57)
         \<or> c = CHR ''_'' \<or> c = CHR ''.'' \<or> c = CHR ''-'')"

definition replaceInvalid :: "string \<Rightarrow> string" where
  "replaceInvalid name = map (\<lambda>c. if validNameChar c then c else CHR ''_'') name"

definition generateValidName :: "string \<Rightarrow> string" where
  "generateValidName name =
     (let validToolname = replaceInvalid name
      in if length validToolname > 63
         then take 28 validToolname @ ''___''
              @ drop (length validToolname - 32) validToolname
         else validToolname)"

section \<open>The confirmation gate\<close>

text \<open>
  Modelled from the spec: the enumeration \<open>ToolConfirmationOutcome\<close> is declared in
  \<open>tools.ts\<close>, which is not among the sources; the four decisions are the ones the
  specification lists and the tests use.
\<close>

datatype ToolConfirmationOutcome =
    ProceedOnce
  | ProceedAlwaysServer
  | ProceedAlwaysTool
  | Cancel

text \<open>
  The fields of a \<open>DiscoveredMCPTool\<close> that the gate and the transformer read. The
  optional \<open>trust\<close> is absent as \<open>None\<close>; \<open>name\<close> is the registry name.
\<close>

record DiscoveredMCPTool =
  serverName :: string
  serverToolName :: string
  trust :: "bool option"
  name :: string

text \<open>
  The confirmation details handed to the caller. \<open>onConfirm\<close> is the closure of the
  source: it acts on the static allow-list as it is when the decision arrives, so it
  takes that set and returns the updated one.
\<close>

record ToolMcpConfirmationDetails =
  ctype :: string
  title :: string
  cserverName :: string
  ctoolName :: string
  ctoolDisplayName :: string
  onConfirm :: "ToolConfirmationOutcome \<Rightarrow> string set \<Rightarrow> string set"

definition serverAllowListKey :: "DiscoveredMCPTool \<Rightarrow> string" where
  "serverAllowListKey t = serverName t"

definition toolAllowListKey :: "DiscoveredMCPTool \<Rightarrow> string" where
  "toolAllowListKey t = serverName t @ ''.'' @ serverToolName t"

text \<open>
  \<open>shouldConfirmExecute\<close> with the static allow-list as an argument: \<open>None\<close> is the
  source's \<open>false\<close> (no confirmation needed).
\<close>

definition shouldConfirmExecute ::
  "DiscoveredMCPTool \<Rightarrow> string set \<Rightarrow> ToolMcpConfirmationDetails option" where
  "shouldConfirmExecute t allowlist =
     (if trust t = Some True then None
      else if serverAllowListKey t \<in> allowlist \<or> toolAllowListKey t \<in> allowlist then None
      else Some \<lparr> ctype = ''mcp'',
                  title = ''Confirm MCP Tool Execution'',
                  cserverName = serverName t,
                  ctoolName = serverToolName t,
                  ctoolDisplayName = name t,
                  onConfirm = (\<lambda>outcome al.
                     if outcome = ProceedAlwaysServer then insert (serverAllowListKey t) al
                     else if outcome = ProceedAlwaysTool then insert (toolAllowListKey t) al
                     else al) \<rparr>)"

section \<open>The transformer of \<open>mcp-tool.ts\<close>\<close>

definition MCP_MEDIA_TYPES :: "string list" where
  "MCP_MEDIA_TYPES = [''image'', ''pdf'', ''audio'', ''video'']"

text \<open>\<open>MCP_MEDIA_TYPES.includes(v)\<close>: only a string can be a member.\<close>

fun includesJS :: "string list \<Rightarrow> json \<Rightarrow> bool" where
  "includesJS xs (JStr s) = (s \<in> set xs)"
| "includesJS xs v = False"

text \<open>The elements a \<open>for ... of\<close>, \<open>map\<close> or \<open>find\<close> visits on an array.\<close>

fun elems :: "json \<Rightarrow> json list" where
  "elems (JArr xs) = xs"
| "elems v = []"

text \<open>\<open>xs.find(p)\<close>: the first element that satisfies \<open>p\<close>, or \<open>undefined\<close>.\<close>

definition findJS :: "(json \<Rightarrow> bool) \<Rightarrow> json list \<Rightarrow> json" where
  "findJS p xs = (case find p xs of Some x \<Rightarrow> x | None \<Rightarrow> JUndefined)"

text \<open>The two shapes of output part: \<open>{text: v}\<close> and \<open>{inlineData: {data: d, mimeType: m}}\<close>.\<close>

definition textPart :: "json \<Rightarrow> json" where
  "textPart v = JObj [(''text'', v)]"

definition inlineDataPart :: "json \<Rightarrow> json \<Rightarrow> json" where
  "inlineDataPart d m = JObj [(''inlineData'', JObj [(''data'', d), (''mimeType'', m)])]"

text \<open>The type guards of the class.\<close>

definition isTextContent :: "json \<Rightarrow> bool" where
  "isTextContent item =
     (typeof item = ''object'' \<and> item \<noteq> JNull
      \<and> hasKey ''type'' item \<and> hasKey ''text'' item
      \<and> getProp item ''type'' = JStr ''text''
      \<and> typeof (getProp item ''text'') = ''string'')"

text \<open>
  \<open>typeof null\<close> is \<open>object\<close>, so a \<open>resource\<close> that is \<open>null\<close> passes the test
  before the last and the read of its \<open>uri\<close> throws.
\<close>

definition isResourceContent :: "json \<Rightarrow> error + bool" where
  "isResourceContent item =
     (if typeof item = ''object'' \<and> item \<noteq> JNull
         \<and> hasKey ''type'' item \<and> hasKey ''resource'' item
         \<and> getProp item ''type'' = JStr ''resource''
         \<and> typeof (getProp item ''resource'') = ''object''
      then (if nullish (getProp item ''resource'') then Inl TypeError
            else Inr (typeof (getProp (getProp item ''resource'') ''uri'') = ''string''))
      else Inr False)"

definition isMediaContent :: "json \<Rightarrow> bool" where
  "isMediaContent item =
     (if typeof item \<noteq> ''object'' \<or> item = JNull then False
      else if \<not> hasKey ''type'' item \<or> \<not> hasKey ''data'' item \<or> \<not> hasKey ''mimeType'' item
      then False
      else if typeof (getProp item ''type'') \<noteq> ''string''
              \<or> \<not> includesJS MCP_MEDIA_TYPES (getProp item ''type'')
      then False
      else getProp item ''data'' \<noteq> JNull \<and> getProp item ''data'' \<noteq> JUndefined
           \<and> getProp item ''mimeType'' \<noteq> JNull \<and> getProp item ''mimeType'' \<noteq> JUndefined)"

text \<open>The four variables of \<open>transformMcpResponse\<close> that its loops update.\<close>

record transformState =
  result :: "json list"
  hasTransformedContent :: bool
  currentPartHasMedia :: bool
  currentPartItems :: "json list"

definition initialState :: transformState where
  "initialState = \<lparr> result = [], hasTransformedContent = False,
                     currentPartHasMedia = False, currentPartItems = [] \<rparr>"

definition invalidMediaText :: string where
  "invalidMediaText = ''[Invalid media: missing data or mimeType]''"

text \<open>\<open>currentPartItems.push(p); hasTransformedContent = true\<close>.\<close>

definition pushItem :: "transformState \<Rightarrow> json \<Rightarrow> transformState" where
  "pushItem st p =
     st\<lparr> currentPartItems := currentPartItems st @ [p], hasTransformedContent := True \<rparr>"

text \<open>The body of the inner loop, for one content item.\<close>

definition transformItem :: "transformState \<Rightarrow> json \<Rightarrow> error + transformState" where
  "transformItem st item =
     (if isTextContent item then Inr (pushItem st (textPart (getProp item ''text'')))
      else if isMediaContent item then
        (if \<not> truthy (getProp item ''data'') \<or> \<not> truthy (getProp item ''mimeType'')
            \<or> typeof (getProp item ''data'') \<noteq> ''string''
            \<or> typeof (getProp item ''mimeType'') \<noteq> ''string''
         then Inr (pushItem st (textPart (JStr invalidMediaText)))
         else Inr (pushItem (st\<lparr> currentPartHasMedia := True \<rparr>)
                     (inlineDataPart (getProp item ''data'') (getProp item ''mimeType''))))
      else bindE (isResourceContent item) (\<lambda>isResource.
        if isResource then
          (let resource = getProp item ''resource'' in
           if truthy (getProp resource ''blob'') \<and> truthy (getProp resource ''mimeType'')
           then Inr (pushItem (st\<lparr> currentPartHasMedia := True \<rparr>)
                       (inlineDataPart (getProp resource ''blob'') (getProp resource ''mimeType'')))
           else if truthy (getProp resource ''text'')
           then bindE (toStringOrThrow (getProp resource ''uri'')) (\<lambda>uri.
                bindE (toStringOrThrow (getProp resource ''text'')) (\<lambda>text.
                  Inr (pushItem st (textPart (JStr (''[Resource: '' @ uri @ '']'' @ NL @ text))))))
           else bindE (toStringOrThrow (getProp resource ''uri'')) (\<lambda>uri.
                  Inr (pushItem st (textPart (JStr (''[Resource: '' @ uri @ '']''))))))
        else if truthy item \<and> typeof item = ''object'' \<and> hasKey ''type'' item then
          (let itemType = getProp item ''type'' in
           if typeof itemType = ''string'' \<and> includesJS MCP_MEDIA_TYPES itemType
           then Inr (pushItem st (textPart (JStr invalidMediaText)))
           else bindE (toStringOrThrow itemType) (\<lambda>shown.
                  Inr (pushItem st (textPart (JStr (''[Unknown content type: '' @ shown @ '']''))))))
        else Inr st))"

fun transformItems :: "transformState \<Rightarrow> json list \<Rightarrow> error + transformState" where
  "transformItems st [] = Inr st"
| "transformItems st (item # items) =
     bindE (transformItem st item) (\<lambda>st'. transformItems st' items)"

definition responseHeader :: "DiscoveredMCPTool \<Rightarrow> json" where
  "responseHeader t =
     textPart (JStr (''[Response from '' @ serverToolName t @ '' ('' @ serverName t
                     @ '' MCP Server)]''))"

text \<open>The error text: the first text item's text, or \<open>Unknown error\<close> when that is falsy.\<close>

definition errorText :: "json list \<Rightarrow> json" where
  "errorText content =
     (let found = optProp (findJS isTextContent content) ''text''
      in if truthy found then found else JStr ''Unknown error'')"

text \<open>The body of the outer loop, for one part of the response.\<close>

definition transformPart ::
  "DiscoveredMCPTool \<Rightarrow> transformState \<Rightarrow> json \<Rightarrow> error + transformState" where
  "transformPart t st part =
     (if nullish part then Inl TypeError
      else if \<not> truthy (getProp part ''functionResponse'')
      then Inr (st\<lparr> result := result st @ [part] \<rparr>)
      else
        (let functionResponse = getProp part ''functionResponse'';
             content = optProp (getProp functionResponse ''response'') ''content''
         in if \<not> truthy content \<or> \<not> isArray content
            then Inr (st\<lparr> result := result st @ [part] \<rparr>)
            else if truthy (optProp (getProp functionResponse ''response'') ''isError'')
            then bindE (toStringOrThrow (errorText (elems content))) (\<lambda>shown.
                   Inr (st\<lparr> result := result st
                              @ [textPart (JStr (''Error from '' @ serverToolName t @ '': ''
                                                 @ shown))],
                           hasTransformedContent := True \<rparr>))
            else bindE (transformItems
                          (st\<lparr> currentPartHasMedia := False, currentPartItems := [] \<rparr>)
                          (elems content))
                   (\<lambda>st1.
                      let st2 = (if currentPartHasMedia st1 \<and> length (currentPartItems st1) > 0
                                 then st1\<lparr> result := result st1 @ [responseHeader t] \<rparr>
                                 else st1)
                      in Inr (st2\<lparr> result := result st2 @ currentPartItems st2 \<rparr>))))"

fun transformParts ::
  "DiscoveredMCPTool \<Rightarrow> transformState \<Rightarrow> json list \<Rightarrow> error + transformState" where
  "transformParts t st [] = Inr st"
| "transformParts t st (part # parts) =
     bindE (transformPart t st part) (\<lambda>st'. transformParts t st' parts)"

definition transformMcpResponse :: "DiscoveredMCPTool \<Rightarrow> json list \<Rightarrow> error + json list" where
  "transformMcpResponse t responseParts =
     bindE (transformParts t initialState responseParts)
       (\<lambda>st. Inr (if hasTransformedContent st then result st else responseParts))"

section \<open>The summarizer of \<open>mcp-tool.ts\<close>\<close>

text \<open>
  \<open>JSON.stringify(v, null, 2)\<close> is the platform's; the summarizers take it as the
  parameter \<open>stringify\<close> (the text that the concatenation with the fence sees).
\<close>

text \<open>The markdown code fence around a JSON text.\<close>

definition fence :: "string \<Rightarrow> string" where
  "fence s = ''```json'' @ NL @ s @ NL @ ''```''"

text \<open>\<open>xs.map(f)\<close> for a callback that may throw: the first throw ends the map.\<close>

fun mapE :: "('a \<Rightarrow> error + 'b) \<Rightarrow> 'a list \<Rightarrow> error + 'b list" where
  "mapE f [] = Inr []"
| "mapE f (x # xs) = bindE (f x) (\<lambda>y. bindE (mapE f xs) (\<lambda>ys. Inr (y # ys)))"

text \<open>\<open>`[${label}: ${v}]`\<close>, a template literal of the summarizers.\<close>

definition labelled :: "string \<Rightarrow> json \<Rightarrow> error + json" where
  "labelled label v =
     bindE (toStringOrThrow v) (\<lambda>shown. Inr (JStr (''['' @ label @ '': '' @ shown @ '']'')))"

text \<open>The callback of \<open>responseContent.map\<close>.\<close>

definition processContentItem :: "json \<Rightarrow> error + json" where
  "processContentItem item =
     (if \<not> truthy item \<or> typeof item \<noteq> ''object'' then Inr item
      else if getProp item ''type'' = JStr ''text'' \<and> truthy (getProp item ''text'')
      then Inr (getProp item ''text'')
      else if getProp item ''type'' = JStr ''image'' \<and> truthy (getProp item ''data'')
              \<and> truthy (getProp item ''mimeType'')
      then labelled ''Image'' (getProp item ''mimeType'')
      else if getProp item ''type'' = JStr ''audio'' \<and> truthy (getProp item ''data'')
              \<and> truthy (getProp item ''mimeType'')
      then labelled ''Audio'' (getProp item ''mimeType'')
      else if getProp item ''type'' = JStr ''video'' \<and> truthy (getProp item ''data'')
              \<and> truthy (getProp item ''mimeType'')
      then labelled ''Video'' (getProp item ''mimeType'')
      else if getProp item ''type'' = JStr ''pdf'' \<and> truthy (getProp item ''data'')
              \<and> truthy (getProp item ''mimeType'')
      then Inr (JStr ''[PDF document]'')
      else if getProp item ''text'' \<noteq> JUndefined then Inr (getProp item ''text'')
      else Inr item)"

definition processFunctionResponse :: "json \<Rightarrow> error + json" where
  "processFunctionResponse part =
     (if nullish part then Inl TypeError
      else if truthy (getProp part ''functionResponse'') then
        (let responseContent =
               optProp (getProp (getProp part ''functionResponse'') ''response'') ''content''
         in if truthy responseContent \<and> isArray responseContent
            then bindE (mapE processContentItem (elems responseContent))
                   (\<lambda>processedContent.
                      if list_all (\<lambda>item. typeof item = ''string'') processedContent
                      then bindE (joinJS NL processedContent) (\<lambda>joined. Inr (JStr joined))
                      else Inr (JArr processedContent))
            else Inr (getProp part ''functionResponse''))
      else Inr part)"

definition getStringifiedResultForDisplay ::
  "(json \<Rightarrow> string) \<Rightarrow> json list \<Rightarrow> error + string" where
  "getStringifiedResultForDisplay stringify result' =
     (if length result' = 0 then Inr (fence ''[]'')
      else bindE (if length result' = 1 then processFunctionResponse (hd result')
                  else bindE (mapE processFunctionResponse result') (\<lambda>rs. Inr (JArr rs)))
             (\<lambda>processedResults.
                case processedResults of
                  JStr text \<Rightarrow> Inr text
                | v \<Rightarrow> Inr (fence (stringify v))))"

section \<open>The transformer and the summarizer of the second source file\<close>

text \<open>
  The second source file (\<open>part_000\<close>) holds another version of the same module. Its
  gate and \<open>generateValidName\<close> are the ones above, word for word; its transformer is
  the free function \<open>transformMcpContentToParts\<close>, and its summarizer is modelled as
  \<open>getStringifiedResultForDisplay_part_000\<close>. Both read the raw response through
  optional chaining, so they take any value. \<open>JSON.parse\<close> is the platform's and is
  the parameter \<open>parse\<close>: \<open>None\<close> when it throws.
\<close>

text \<open>\<open>v?.[0]\<close>.\<close>

fun optIndex0 :: "json \<Rightarrow> json" where
  "optIndex0 (JArr (x # xs)) = x"
| "optIndex0 (JStr (c # cs)) = JStr [c]"
| "optIndex0 (JObj kvs) = getProp (JObj kvs) ''0''"
| "optIndex0 v = JUndefined"

text \<open>\<open>a || b\<close>.\<close>

definition orJS :: "json \<Rightarrow> json \<Rightarrow> json" where
  "orJS a b = (if truthy a then a else b)"

text \<open>
  The \<open>switch\<close> over \<open>actualBlock.type\<close>: the value the callback of \<open>flatMap\<close>
  returns, \<open>JNull\<close> for \<open>null\<close> and an array for the two-part answers.
\<close>

definition switchBlock :: "json \<Rightarrow> json \<Rightarrow> error + json" where
  "switchBlock toolName actualBlock =
     (if nullish actualBlock then Inl TypeError
      else
        (let ty = getProp actualBlock ''type''; resource = getProp actualBlock ''resource'' in
         if ty = JStr ''text'' then Inr (textPart (getProp actualBlock ''text''))
         else if ty = JStr ''image'' \<or> ty = JStr ''audio'' then
           bindE (toStringOrThrow toolName) (\<lambda>tool.
           bindE (toStringOrThrow ty) (\<lambda>kind.
           bindE (toStringOrThrow (getProp actualBlock ''mimeType'')) (\<lambda>mime.
             Inr (JArr
               [textPart (JStr (''[Tool '' @ APOS @ tool @ APOS
                   @ '' provided the following '' @ kind @ '' data with mime-type: ''
                   @ mime @ '']'')),
                JObj [(''inlineData'', JObj [(''mimeType'', getProp actualBlock ''mimeType''),
                                              (''data'', getProp actualBlock ''data'')])]]))))
         else if ty = JStr ''resource'' then
           (if truthy (optProp resource ''text'') then Inr (textPart (getProp resource ''text''))
            else if truthy (optProp resource ''blob'') then
              bindE (toStringOrThrow toolName) (\<lambda>tool.
              bindE (toStringOrThrow (orJS (getProp resource ''mimeType'')
                                           (JStr ''application/octet-stream''))) (\<lambda>mime.
                Inr (JArr
                  [textPart (JStr (''[Tool '' @ APOS @ tool @ APOS
                      @ '' provided the following embedded resource with mime-type: ''
                      @ mime @ '']'')),
                   JObj [(''inlineData'',
                          JObj [(''mimeType'', orJS (getProp resource ''mimeType'')
                                                    (JStr ''application/octet-stream'')),
                                (''data'', getProp resource ''blob'')])]])))
            else Inr JNull)
         else if ty = JStr ''resource_link'' then
           bindE (toStringOrThrow (orJS (getProp actualBlock ''title'')
                                        (getProp actualBlock ''name''))) (\<lambda>label.
           bindE (toStringOrThrow (getProp actualBlock ''uri'')) (\<lambda>uri.
             Inr (textPart (JStr (''Resource Link: '' @ label @ '' at '' @ uri)))))
         else Inr JNull))"

text \<open>
  The callback of \<open>flatMap\<close>, with the unwrapping of an untyped text block first. The
  \<open>catch\<close> around \<open>JSON.parse\<close> takes every exception: a text that does not parse,
  and a text whose conversion to a string throws.
\<close>

definition transformBlock ::
  "(string \<Rightarrow> json option) \<Rightarrow> json \<Rightarrow> json \<Rightarrow> error + json" where
  "transformBlock parse toolName block =
     (if nullish block then Inl TypeError
      else if truthy (getProp block ''text'') \<and> \<not> truthy (getProp block ''type'') then
        (case toStringOrThrow (getProp block ''text'') of
           Inl e \<Rightarrow> Inr (textPart (getProp block ''text''))
         | Inr text \<Rightarrow>
             (case parse text of
                None \<Rightarrow> Inr (textPart (getProp block ''text''))
              | Some actualBlock \<Rightarrow> switchBlock toolName actualBlock))
      else switchBlock toolName block)"

text \<open>\<open>flatMap\<close> flattens the returned arrays by one level.\<close>

fun flatten1 :: "json list \<Rightarrow> json list" where
  "flatten1 [] = []"
| "flatten1 (JArr xs # rest) = xs @ flatten1 rest"
| "flatten1 (x # rest) = x # flatten1 rest"

definition transformMcpContentToParts ::
  "(string \<Rightarrow> json option) \<Rightarrow> json \<Rightarrow> error + json list" where
  "transformMcpContentToParts parse sdkResponse =
     (let funcResponse = optProp (optIndex0 sdkResponse) ''functionResponse'';
          mcpContent = optProp (optProp funcResponse ''response'') ''content'';
          toolName = orJS (optProp funcResponse ''name'') (JStr ''unknown tool'')
      in if \<not> isArray mcpContent
         then Inr [textPart (JStr ''[Error: Could not parse tool response]'')]
         else bindE (mapE (transformBlock parse toolName) (elems mcpContent))
                (\<lambda>transformed. Inr (filter (\<lambda>part. part \<noteq> JNull) (flatten1 transformed))))"

text \<open>The callback of \<open>mcpContent.map\<close> in the summarizer.\<close>

definition displayBlock :: "json \<Rightarrow> error + json" where
  "displayBlock block =
     (if nullish block then Inl TypeError
      else
        (let ty = getProp block ''type''; resource = getProp block ''resource'' in
         if ty = JStr ''text'' then Inr (getProp block ''text'')
         else if ty = JStr ''image'' then labelled ''Image'' (getProp block ''mimeType'')
         else if ty = JStr ''audio'' then labelled ''Audio'' (getProp block ''mimeType'')
         else if ty = JStr ''resource_link''
         then bindE (toStringOrThrow (orJS (getProp block ''title'') (getProp block ''name'')))
                (\<lambda>label.
              bindE (toStringOrThrow (getProp block ''uri'')) (\<lambda>uri.
                Inr (JStr (''[Link to '' @ label @ '': '' @ uri @ '']''))))
         else if ty = JStr ''resource'' then
           (if truthy (optProp resource ''text'') then Inr (getProp resource ''text'')
            else labelled ''Embedded Resource''
                   (orJS (optProp resource ''mimeType'') (JStr ''unknown type'')))
         else labelled ''Unknown content type'' ty))"

definition getStringifiedResultForDisplay_part_000 ::
  "(json \<Rightarrow> string) \<Rightarrow> json \<Rightarrow> error + string" where
  "getStringifiedResultForDisplay_part_000 stringify rawResponse =
     (let mcpContent =
            optProp (optProp (optProp (optIndex0 rawResponse) ''functionResponse'')
                       ''response'') ''content''
      in if \<not> isArray mcpContent
         then Inr (fence (stringify rawResponse))
         else bindE (mapE displayBlock (elems mcpContent))
                (\<lambda>displayParts. joinJS NL displayParts))"

section \<open>Notions used in the statements\<close>

text \<open>
  A part of the response \<open>respondsWith\<close> the items \<open>items\<close> when it is a function
  response whose content is the array of these items and whose error flag is not set;
  \<open>respondsWithError\<close> is the same with the flag set. These are the two cases in which
  \<open>transformMcpResponse\<close> looks into a part.
\<close>

definition respondsWith :: "json \<Rightarrow> json list \<Rightarrow> bool" where
  "respondsWith part items =
     (\<not> nullish part \<and> truthy (getProp part ''functionResponse'')
      \<and> optProp (getProp (getProp part ''functionResponse'') ''response'') ''content''
          = JArr items
      \<and> \<not> truthy (optProp (getProp (getProp part ''functionResponse'') ''response'')
                       ''isError''))"

definition respondsWithError :: "json \<Rightarrow> json list \<Rightarrow> bool" where
  "respondsWithError part items =
     (\<not> nullish part \<and> truthy (getProp part ''functionResponse'')
      \<and> optProp (getProp (getProp part ''functionResponse'') ''response'') ''content''
          = JArr items
      \<and> truthy (optProp (getProp (getProp part ''functionResponse'') ''response'')
                     ''isError''))"

text \<open>
  What the inner loop of \<open>transformMcpResponse\<close> pushes for one item: the items of the
  state after the loop body has run on that item from the initial state.
\<close>

definition itemOutput :: "json \<Rightarrow> error + json list" where
  "itemOutput item =
     bindE (transformItem initialState item) (\<lambda>st. Inr (currentPartItems st))"

definition isInlineDataPart :: "json \<Rightarrow> bool" where
  "isInlineDataPart p = hasKey ''inlineData'' p"

text \<open>An item produces media when one of the parts pushed for it is an \<open>inlineData\<close> part.\<close>

definition producesMedia :: "json \<Rightarrow> bool" where
  "producesMedia item =
     (case itemOutput item of Inl e \<Rightarrow> False | Inr ps \<Rightarrow> list_ex isInlineDataPart ps)"

text \<open>The content array as the second source file extracts it from a raw response.\<close>

definition mcpContentOf :: "json \<Rightarrow> json" where
  "mcpContentOf rawResponse =
     optProp (optProp (optProp (optIndex0 rawResponse) ''functionResponse'') ''response'')
       ''content''"

text \<open>The state after the loop body, from what the body pushes.\<close>

definition pushed :: "transformState \<Rightarrow> json list \<Rightarrow> transformState" where
  "pushed st ps =
     st\<lparr> currentPartItems := currentPartItems st @ ps,
         hasTransformedContent := hasTransformedContent st \<or> ps \<noteq> [],
         currentPartHasMedia := currentPartHasMedia st \<or> list_ex isInlineDataPart ps \<rparr>"

text \<open>
  What the outer loop appends to \<open>result\<close> for one part of the response, and whether
  the part sets \<open>hasTransformedContent\<close>: the loop body run from the initial state.
\<close>

definition partOutput :: "DiscoveredMCPTool \<Rightarrow> json \<Rightarrow> error + json list" where
  "partOutput t part = bindE (transformPart t initialState part) (\<lambda>st. Inr (result st))"

definition partTransforms :: "DiscoveredMCPTool \<Rightarrow> json \<Rightarrow> bool" where
  "partTransforms t part =
     (case transformPart t initialState part of
        Inl e \<Rightarrow> False | Inr st \<Rightarrow> hasTransformedContent st)"

text \<open>The parts that the outer loop copies: no function response, or no content array.\<close>

definition keptAsIs :: "json \<Rightarrow> bool" where
  "keptAsIs part =
     (\<not> nullish part
      \<and> (\<not> truthy (getProp part ''functionResponse'')
         \<or> \<not> isArray (optProp (getProp (getProp part ''functionResponse'') ''response'')
                          ''content'')))"

text \<open>The single part pushed for an error response, and the header of a part with media.\<close>

definition errorPart :: "DiscoveredMCPTool \<Rightarrow> json list \<Rightarrow> json" where
  "errorPart t items =
     textPart (JStr (''Error from '' @ serverToolName t @ '': '' @ toStringJS (errorText items)))"

definition headerIf :: "DiscoveredMCPTool \<Rightarrow> json list \<Rightarrow> json list" where
  "headerIf t ps = (if list_ex isInlineDataPart ps then [responseHeader t] else [])"

text \<open>The tool name as the second source file reads it from a raw response.\<close>

definition toolNameOf :: "json \<Rightarrow> json" where
  "toolNameOf rawResponse =
     orJS (optProp (optProp (optIndex0 rawResponse) ''functionResponse'') ''name'')
          (JStr ''unknown tool'')"

text \<open>
  No object inside the value, at any depth, has an own property named \<open>toString\<close>:
  then no string conversion of the value or of a part of it throws.
\<close>

fun noOwnToString :: "json \<Rightarrow> bool" where
  "noOwnToString (JArr xs) = list_all noOwnToString xs"
| "noOwnToString (JObj kvs) =
     (map_of kvs ''toString'' = None \<and> list_all noOwnToString (map snd kvs))"
| "noOwnToString v = True"

section \<open>Concrete inputs\<close>

text \<open>
  The tool, the server and the response envelopes of the tests, a second tool of the
  same server, and builders for the blocks the tests use.
\<close>

definition mockTool :: DiscoveredMCPTool where
  "mockTool = \<lparr> serverName = ''mock-mcp-server'', serverToolName = ''actual-server-tool-name'',
                 trust = None, name = ''actual-server-tool-name'' \<rparr>"

definition otherTool :: DiscoveredMCPTool where
  "otherTool = \<lparr> serverName = ''mock-mcp-server'', serverToolName = ''another-tool'',
                  trust = None, name = ''another-tool'' \<rparr>"

definition mockResponse :: "json list \<Rightarrow> json" where
  "mockResponse content =
     JObj [(''functionResponse'',
            JObj [(''name'', JStr ''actual-server-tool-name''),
                  (''response'', JObj [(''content'', JArr content)])])]"

definition mockErrorResponse :: "json list \<Rightarrow> json" where
  "mockErrorResponse content =
     JObj [(''functionResponse'',
            JObj [(''name'', JStr ''actual-server-tool-name''),
                  (''response'', JObj [(''isError'', JBool True), (''content'', JArr content)])])]"

definition textBlock :: "string \<Rightarrow> json" where
  "textBlock s = JObj [(''type'', JStr ''text''), (''text'', JStr s)]"

definition mediaBlock :: "string \<Rightarrow> json \<Rightarrow> json \<Rightarrow> json" where
  "mediaBlock ty d m = JObj [(''type'', JStr ty), (''data'', d), (''mimeType'', m)]"

definition resourceBlock :: "(string \<times> json) list \<Rightarrow> json" where
  "resourceBlock kvs = JObj [(''type'', JStr ''resource''), (''resource'', JObj kvs)]"

text \<open>A response envelope that names the tool \<open>t\<close>.\<close>

definition responseOfT :: "json list \<Rightarrow> json" where
  "responseOfT content =
     JObj [(''functionResponse'',
            JObj [(''name'', JStr ''t''), (''response'', JObj [(''content'', JArr content)])])]"

text \<open>The tool \<open>t\<close> of the server \<open>s\<close>, and three resources.\<close>

definition toolT :: DiscoveredMCPTool where
  "toolT = \<lparr> serverName = ''s'', serverToolName = ''t'', trust = None, name = ''t'' \<rparr>"

definition bothResource :: json where
  "bothResource = resourceBlock [(''uri'', JStr ''file:///r''), (''text'', JStr ''T''),
                                 (''blob'', JStr ''QUJD''), (''mimeType'', JStr ''image/png'')]"

definition textResource :: json where
  "textResource = resourceBlock [(''uri'', JStr ''file:///r''), (''text'', JStr ''T'')]"

definition blobResource :: json where
  "blobResource = resourceBlock [(''uri'', JStr ''file:///r''), (''blob'', JStr ''QUJD'')]"

text \<open>
  A value whose conversion to a string throws, a resource with that value as its text
  and an image block with that value as its mime type.
\<close>

definition unshown :: json where
  "unshown = JObj [(''toString'', JNum ''1'')]"

definition unshownResource :: json where
  "unshownResource = resourceBlock [(''uri'', JStr ''file:///r''), (''text'', unshown)]"

definition unshownImage :: json where
  "unshownImage = mediaBlock ''image'' (JStr ''AAA'') unshown"

text \<open>An untyped block of the old format.\<close>

definition legacyBlock :: "string \<Rightarrow> json" where
  "legacyBlock s = JObj [(''text'', JStr s)]"

text \<open>
  Stand-ins for the platform functions at concrete inputs. \<open>noStringify\<close> is used
  where the summarizer never calls \<open>JSON.stringify\<close>. \<open>parseWrapped\<close> agrees with
  \<open>JSON.parse\<close> on the texts it is applied to: \<open>wrappedHello\<close>, the JSON text of
  the object \<open>{text: hello}\<close>; \<open>hello\<close> and the empty text, which are not JSON
  texts.
\<close>

definition noStringify :: "json \<Rightarrow> string" where
  "noStringify v = []"

definition wrappedHello :: string where
  "wrappedHello = ''{'' @ [CHR 0x22] @ ''text'' @ [CHR 0x22] @ '':'' @ [CHR 0x22] @ ''hello''
                  @ [CHR 0x22] @ ''}''"

definition parseWrapped :: "string \<Rightarrow> json option" where
  "parseWrapped s = (if s = wrappedHello then Some (legacyBlock ''hello'') else None)"

text \<open>
  \<open>parseNothing\<close> is used where no text is parsed. \<open>parseTyped\<close> agrees with
  \<open>JSON.parse\<close> on the texts it is applied to: \<open>typedHello\<close>, the JSON text of
  the text block \<open>hello\<close>, and \<open>Simple text response\<close>, which is not a JSON
  text. \<open>stringifyEmpty\<close> agrees with \<open>JSON.stringify\<close> on the empty array and
  on the empty object, the only values whose rendering a statement below shows.
\<close>

definition typedHello :: string where
  "typedHello = ''{'' @ [CHR 0x22] @ ''type'' @ [CHR 0x22] @ '':'' @ [CHR 0x22] @ ''text''
      @ [CHR 0x22] @ '','' @ [CHR 0x22] @ ''text'' @ [CHR 0x22] @ '':'' @ [CHR 0x22] @ ''hello''
      @ [CHR 0x22] @ ''}''"

definition parseTyped :: "string \<Rightarrow> json option" where
  "parseTyped s = (if s = typedHello then Some (textBlock ''hello'') else None)"

definition stringifyEmpty :: "json \<Rightarrow> string" where
  "stringifyEmpty v = (if v = JObj [] then ''{}'' else ''[]'')"

text \<open>A part whose function response has no field at all.\<close>

definition bareResponse :: json where
  "bareResponse = JObj [(''functionResponse'', JObj [])]"

definition parseNothing :: "string \<Rightarrow> json option" where
  "parseNothing s = None"

section \<open>Properties of the tool names\<close>

lemma validNameChar_underscore: "validNameChar (CHR ''_'')"
  by (simp add: validNameChar_def)

lemma replaceInvalid_valid: "c \<in> set (replaceInvalid s) \<Longrightarrow> validNameChar c"
  by (auto simp: replaceInvalid_def validNameChar_underscore)

lemma generateValidName_length: "length (generateValidName s) \<le> 63"
  unfolding generateValidName_def Let_def by auto

lemma generateValidName_chars: "c \<in> set (generateValidName s) \<Longrightarrow> validNameChar c"
  unfolding generateValidName_def Let_def
  by (auto simp: validNameChar_underscore split: if_splits
           dest!: in_set_takeD in_set_dropD replaceInvalid_valid)

lemma last_32: "drop (length v - 32) v = rev (take 32 (rev v))"
  by (simp add: take_rev)

lemma generateValidName_long:
  "length (replaceInvalid s) > 63 \<Longrightarrow>
   generateValidName s
     = take 28 (replaceInvalid s) @ ''___'' @ rev (take 32 (rev (replaceInvalid s)))"
  unfolding generateValidName_def Let_def last_32 by simp

text \<open>
  C10. For every input string, \<open>generateValidName\<close> returns a string of length at most
  63 whose characters are all drawn from \<open>[a-zA-Z0-9_.-]\<close>; when the sanitized name
  (the input with every other character replaced by an underscore) is longer than 63,
  the result is its first 28 characters, then three underscores, then its last 32
  characters.
\<close>

theorem generateValidName_bounded:
  "length (generateValidName s) \<le> 63
   \<and> (\<forall>c \<in> set (generateValidName s). validNameChar c)
   \<and> (length (replaceInvalid s) > 63 \<longrightarrow>
        generateValidName s
          = take 28 (replaceInvalid s) @ ''___'' @ rev (take 32 (rev (replaceInvalid s))))"
  using generateValidName_length generateValidName_chars generateValidName_long by blast

text \<open>The name of eighty \<open>x\<close> of the tests.\<close>

theorem generateValidName_bounded_witness:
  "length (replaceInvalid (replicate 80 (CHR ''x''))) > 63
   \<and> length (generateValidName (replicate 80 (CHR ''x''))) = 63
   \<and> list_all validNameChar (generateValidName (replicate 80 (CHR ''x'')))
   \<and> generateValidName (replicate 80 (CHR ''x''))
       = ''xxxxxxxxxxxxxxxxxxxxxxxxxxxx___xxxxxxxxxxxxxxxxxxxxxxxxxxxxxxxx''"
proof -
  have v: "replaceInvalid (replicate 80 (CHR ''x'')) = replicate 80 (CHR ''x'')"
    by (simp add: replaceInvalid_def validNameChar_def)
  have long: "length (replaceInvalid (replicate 80 (CHR ''x''))) > 63"
    by (simp add: v)
  have cut: "take 28 (replicate 80 (CHR ''x'')) @ ''___''
               @ rev (take 32 (rev (replicate 80 (CHR ''x''))))
             = ''xxxxxxxxxxxxxxxxxxxxxxxxxxxx___xxxxxxxxxxxxxxxxxxxxxxxxxxxxxxxx''"
    by code_simp
  from generateValidName_bounded [of "replicate 80 (CHR ''x'')"] long
  have r: "generateValidName (replicate 80 (CHR ''x''))
             = ''xxxxxxxxxxxxxxxxxxxxxxxxxxxx___xxxxxxxxxxxxxxxxxxxxxxxxxxxxxxxx''"
    and a: "\<forall>c \<in> set (generateValidName (replicate 80 (CHR ''x''))). validNameChar c"
    unfolding v cut by blast+
  have l: "length (generateValidName (replicate 80 (CHR ''x''))) = 63"
    unfolding r by simp
  from a have "list_all validNameChar (generateValidName (replicate 80 (CHR ''x'')))"
    by (simp add: list_all_iff)
  with long l r show ?thesis by blast
qed

section \<open>Properties of the confirmation gate\<close>

lemma shouldConfirmExecute_Some:
  "shouldConfirmExecute t al = Some d \<Longrightarrow>
   onConfirm d = (\<lambda>outcome al'.
      if outcome = ProceedAlwaysServer then insert (serverName t) al'
      else if outcome = ProceedAlwaysTool then insert (serverName t @ ''.'' @ serverToolName t) al'
      else al')"
  by (auto simp: shouldConfirmExecute_def serverAllowListKey_def toolAllowListKey_def
           fun_eq_iff split: if_splits)

lemma server_listed_allows:
  "serverName t' \<in> al \<Longrightarrow> shouldConfirmExecute t' al = None"
  by (simp add: shouldConfirmExecute_def serverAllowListKey_def)

text \<open>
  C2. For every tool, \<open>shouldConfirmExecute\<close> asks for no confirmation when the tool
  is trusted, whatever the allow-list holds. When it does ask, the \<open>onConfirm\<close> it
  hands out behaves as follows on the allow-list \<open>al'\<close> it finds when the decision
  arrives: \<open>ProceedAlwaysServer\<close> adds the server's name, and from then on (in every
  allow-list \<open>al''\<close> that still holds what was added) no tool of that server is asked
  about again; \<open>ProceedAlwaysTool\<close> adds the key \<open>serverName.serverToolName\<close>;
  \<open>ProceedOnce\<close> and \<open>Cancel\<close> return the allow-list as it was, so its size and
  its members are unchanged.
\<close>

theorem allowlist_gate:
  "(trust t = Some True \<longrightarrow> shouldConfirmExecute t al = None)
   \<and> (shouldConfirmExecute t al = Some d \<longrightarrow>
        onConfirm d ProceedAlwaysServer al' = insert (serverName t) al'
        \<and> (\<forall>t' al''. serverName t' = serverName t
              \<and> onConfirm d ProceedAlwaysServer al' \<subseteq> al''
              \<longrightarrow> shouldConfirmExecute t' al'' = None)
        \<and> onConfirm d ProceedAlwaysTool al'
            = insert (serverName t @ ''.'' @ serverToolName t) al'
        \<and> onConfirm d ProceedOnce al' = al'
        \<and> onConfirm d Cancel al' = al')"
proof -
  have trusted: "trust t = Some True \<longrightarrow> shouldConfirmExecute t al = None"
    by (simp add: shouldConfirmExecute_def)
  have pending: "shouldConfirmExecute t al = Some d \<longrightarrow>
        onConfirm d ProceedAlwaysServer al' = insert (serverName t) al'
        \<and> (\<forall>t' al''. serverName t' = serverName t
              \<and> onConfirm d ProceedAlwaysServer al' \<subseteq> al''
              \<longrightarrow> shouldConfirmExecute t' al'' = None)
        \<and> onConfirm d ProceedAlwaysTool al'
            = insert (serverName t @ ''.'' @ serverToolName t) al'
        \<and> onConfirm d ProceedOnce al' = al'
        \<and> onConfirm d Cancel al' = al'"
  proof
    assume d: "shouldConfirmExecute t al = Some d"
    note oc = shouldConfirmExecute_Some [OF d]
    have srv: "onConfirm d ProceedAlwaysServer al' = insert (serverName t) al'"
      by (simp add: oc)
    have later: "\<forall>t' al''. serverName t' = serverName t
              \<and> onConfirm d ProceedAlwaysServer al' \<subseteq> al''
              \<longrightarrow> shouldConfirmExecute t' al'' = None"
      unfolding srv by (auto intro: server_listed_allows)
    show "onConfirm d ProceedAlwaysServer al' = insert (serverName t) al'
        \<and> (\<forall>t' al''. serverName t' = serverName t
              \<and> onConfirm d ProceedAlwaysServer al' \<subseteq> al''
              \<longrightarrow> shouldConfirmExecute t' al'' = None)
        \<and> onConfirm d ProceedAlwaysTool al'
            = insert (serverName t @ ''.'' @ serverToolName t) al'
        \<and> onConfirm d ProceedOnce al' = al'
        \<and> onConfirm d Cancel al' = al'"
      using srv later by (simp add: oc)
  qed
  from trusted pending show ?thesis by blast
qed

text \<open>The tool of the tests, a trusted copy of it, and a second tool of the same server.\<close>

theorem allowlist_gate_witness:
  "shouldConfirmExecute (mockTool\<lparr> trust := Some True \<rparr>) {} = None
   \<and> shouldConfirmExecute mockTool {} \<noteq> None
   \<and> onConfirm (the (shouldConfirmExecute mockTool {})) ProceedAlwaysServer {}
       = {''mock-mcp-server''}
   \<and> shouldConfirmExecute otherTool {''mock-mcp-server'', ''x.y''} = None
   \<and> onConfirm (the (shouldConfirmExecute mockTool {})) ProceedAlwaysTool {}
       = {''mock-mcp-server.actual-server-tool-name''}
   \<and> onConfirm (the (shouldConfirmExecute mockTool {})) ProceedOnce {''x.y''} = {''x.y''}
   \<and> onConfirm (the (shouldConfirmExecute mockTool {})) Cancel {''x.y''} = {''x.y''}"
proof -
  obtain d where d: "shouldConfirmExecute mockTool {} = Some d"
    by (simp add: shouldConfirmExecute_def mockTool_def serverAllowListKey_def toolAllowListKey_def)
  have tr: "trust (mockTool\<lparr> trust := Some True \<rparr>) = Some True" by simp
  have sn: "serverName otherTool = serverName mockTool"
    by (simp add: otherTool_def mockTool_def)
  note g1 = allowlist_gate [of "mockTool\<lparr> trust := Some True \<rparr>" "{}"]
  note g2 = allowlist_gate [of mockTool "{}" d "{}"]
  note g3 = allowlist_gate [of mockTool "{}" d "{''x.y''}"]
  have a: "shouldConfirmExecute (mockTool\<lparr> trust := Some True \<rparr>) {} = None"
    using g1 tr by blast
  have b: "onConfirm d ProceedAlwaysServer {} = {''mock-mcp-server''}"
    using g2 d by (simp add: mockTool_def)
  have c: "shouldConfirmExecute otherTool {''mock-mcp-server'', ''x.y''} = None"
    using g2 d sn b by auto
  have e: "onConfirm d ProceedAlwaysTool {} = {''mock-mcp-server.actual-server-tool-name''}"
    using g2 d by (simp add: mockTool_def)
  have f: "onConfirm d ProceedOnce {''x.y''} = {''x.y''}" "onConfirm d Cancel {''x.y''} = {''x.y''}"
    using g3 d by simp_all
  show ?thesis using a b c e f by (simp add: d)
qed

section \<open>Basic facts\<close>

lemma bindE_simps [simp]:
  "bindE (Inl e) f = Inl e"
  "bindE (Inr x) f = f x"
  by (simp_all add: bindE_def)

lemma toStringOrThrow_simps [simp]:
  "toStringOrThrow (JStr s) = Inr s"
  "toStringOrThrow JUndefined = Inr ''undefined''"
  "toStringOrThrow JNull = Inr ''null''"
  by (simp_all add: toStringOrThrow_def)

lemma toStringOrThrow_convertible:
  "stringConvertible v \<Longrightarrow> toStringOrThrow v = Inr (toStringJS v)"
  by (simp add: toStringOrThrow_def)

lemma labelled_JStr [simp]:
  "labelled label (JStr s) = Inr (JStr (''['' @ label @ '': '' @ s @ '']''))"
  by (simp add: labelled_def)

lemma typeof_string: "typeof v = ''string'' \<Longrightarrow> \<exists>s. v = JStr s"
  by (cases v) simp_all

lemma find_text_some:
  "find isTextContent items = Some item \<Longrightarrow> \<exists>s. getProp item ''text'' = JStr s"
proof -
  assume "find isTextContent items = Some item"
  then have "isTextContent item"
    by (auto simp: find_Some_iff)
  then have "typeof (getProp item ''text'') = ''string''"
    by (simp add: isTextContent_def)
  then show ?thesis
    by (cases "getProp item ''text''") simp_all
qed

lemma isTextContent_not_nullish: "isTextContent item \<Longrightarrow> \<not> nullish item"
  by (cases item) (simp_all add: isTextContent_def)

lemma errorText_eq:
  "toStringJS (errorText items) =
     (case find isTextContent items of
        None \<Rightarrow> ''Unknown error''
      | Some item \<Rightarrow>
          (if toStringJS (getProp item ''text'') = [] then ''Unknown error''
           else toStringJS (getProp item ''text'')))"
proof (cases "find isTextContent items")
  case None
  then show ?thesis
    by (simp add: errorText_def findJS_def optProp_def)
next
  case (Some item)
  then obtain s where s: "getProp item ''text'' = JStr s"
    using find_text_some by blast
  from Some have "isTextContent item" by (auto simp: find_Some_iff)
  then have "\<not> nullish item" by (rule isTextContent_not_nullish)
  then show ?thesis
    using Some s by (simp add: errorText_def findJS_def optProp_def)
qed

lemma errorText_string: "\<exists>s. errorText items = JStr s"
proof (cases "find isTextContent items")
  case None
  then show ?thesis
    by (simp add: errorText_def findJS_def optProp_def)
next
  case (Some item)
  then obtain s where s: "getProp item ''text'' = JStr s"
    using find_text_some by blast
  from Some have "isTextContent item" by (auto simp: find_Some_iff)
  then have "\<not> nullish item" by (rule isTextContent_not_nullish)
  then show ?thesis
    using Some s by (simp add: errorText_def findJS_def optProp_def)
qed

lemma errorText_shown: "toStringOrThrow (errorText items) = Inr (toStringJS (errorText items))"
  using errorText_string [of items] by auto

section \<open>The loops of \<open>transformMcpResponse\<close>\<close>

lemma initialState_simps [simp]:
  "result initialState = []"
  "hasTransformedContent initialState = False"
  "currentPartHasMedia initialState = False"
  "currentPartItems initialState = []"
  by (simp_all add: initialState_def)

lemma textPart_not_inline [simp]: "\<not> isInlineDataPart (textPart v)"
  by (simp add: isInlineDataPart_def textPart_def)

lemma inlineDataPart_inline [simp]: "isInlineDataPart (inlineDataPart d m)"
  by (simp add: isInlineDataPart_def inlineDataPart_def)

lemma pushed_Nil [simp]: "pushed st [] = st"
  by (simp add: pushed_def)

lemma pushed_pushed: "pushed (pushed st ps) qs = pushed st (ps @ qs)"
  by (auto simp: pushed_def)

text \<open>The inner loop pushes, item by item, what \<open>itemOutput\<close> gives.\<close>

lemma transformItem_pushed:
  "transformItem st item =
     (case itemOutput item of Inl e \<Rightarrow> Inl e | Inr ps \<Rightarrow> Inr (pushed st ps))"
  unfolding itemOutput_def transformItem_def
  by (cases "isResourceContent item")
     (auto simp: pushItem_def Let_def pushed_def initialState_def bindE_def
           split: sum.splits)


lemma transformItems_pushed:
  "transformItems st items =
     (case mapE itemOutput items of Inl e \<Rightarrow> Inl e | Inr pss \<Rightarrow> Inr (pushed st (concat pss)))"
proof (induction items arbitrary: st)
  case Nil
  show ?case by simp
next
  case (Cons item items)
  show ?case
    by (simp add: transformItem_pushed Cons.IH pushed_pushed split: sum.splits)
qed

text \<open>The four ways the outer loop treats a part.\<close>

lemma isArray_elems: "isArray v \<Longrightarrow> v = JArr (elems v)"
  by (cases v) simp_all

lemma isArray_truthy: "isArray v \<Longrightarrow> truthy v"
  by (cases v) simp_all

lemma part_cases:
  "nullish part \<or> keptAsIs part \<or> (\<exists>items. respondsWith part items)
   \<or> (\<exists>items. respondsWithError part items)"
  unfolding keptAsIs_def respondsWith_def respondsWithError_def
  using isArray_elems by blast

lemma transformPart_nullish: "nullish part \<Longrightarrow> transformPart t st part = Inl TypeError"
  by (simp add: transformPart_def)

lemma transformPart_kept:
  "keptAsIs part \<Longrightarrow> transformPart t st part = Inr (st\<lparr> result := result st @ [part] \<rparr>)"
  by (auto simp: transformPart_def keptAsIs_def Let_def)

lemma transformPart_error:
  "respondsWithError part items \<Longrightarrow>
   transformPart t st part
     = Inr (st\<lparr> result := result st @ [errorPart t items], hasTransformedContent := True \<rparr>)"
  by (simp add: transformPart_def respondsWithError_def Let_def errorPart_def errorText_shown)

lemma transformPart_responds:
  "respondsWith part items \<Longrightarrow>
   transformPart t st part =
     (case mapE itemOutput items of
        Inl e \<Rightarrow> Inl e
      | Inr pss \<Rightarrow>
          Inr (st\<lparr> result := result st @ headerIf t (concat pss) @ concat pss,
                   hasTransformedContent := hasTransformedContent st \<or> concat pss \<noteq> [],
                   currentPartHasMedia := list_ex isInlineDataPart (concat pss),
                   currentPartItems := concat pss \<rparr>))"
  by (auto simp: transformPart_def respondsWith_def Let_def transformItems_pushed pushed_def
                 headerIf_def list_ex_iff split: sum.splits)

text \<open>
  The outer loop appends, part by part, what \<open>partOutput\<close> gives, and the flag is
  set when some part sets it: the result is chosen once, after the loop.
\<close>

lemma transformPart_effect:
  "(\<exists>e. transformPart t st part = Inl e \<and> partOutput t part = Inl e)
   \<or> (\<exists>st' out. transformPart t st part = Inr st' \<and> partOutput t part = Inr out
         \<and> result st' = result st @ out
         \<and> hasTransformedContent st' = (hasTransformedContent st \<or> partTransforms t part))"
proof -
  consider "nullish part" | "keptAsIs part" | items where "respondsWith part items"
    | items where "respondsWithError part items"
    using part_cases by blast
  then show ?thesis
  proof cases
    case 1
    then show ?thesis
      by (simp add: transformPart_nullish partOutput_def)
  next
    case 2
    then show ?thesis
      by (simp add: transformPart_kept partOutput_def partTransforms_def initialState_def)
  next
    case 3
    then show ?thesis
      by (cases "mapE itemOutput items")
         (simp_all add: transformPart_responds partOutput_def partTransforms_def initialState_def)
  next
    case 4
    then show ?thesis
      by (simp add: transformPart_error partOutput_def partTransforms_def initialState_def)
  qed
qed

lemma transformParts_effect:
  "(\<exists>e. transformParts t st ps = Inl e \<and> mapE (partOutput t) ps = Inl e)
   \<or> (\<exists>st' outs. transformParts t st ps = Inr st' \<and> mapE (partOutput t) ps = Inr outs
         \<and> result st' = result st @ concat outs
         \<and> hasTransformedContent st'
             = (hasTransformedContent st \<or> list_ex (partTransforms t) ps))"
proof (induction ps arbitrary: st)
  case Nil
  show ?case by simp
next
  case (Cons p ps)
  from transformPart_effect [of t st p] show ?case
  proof (elim disjE exE conjE)
    fix e assume "transformPart t st p = Inl e" "partOutput t p = Inl e"
    then show ?thesis by simp
  next
    fix st' out
    assume a: "transformPart t st p = Inr st'" "partOutput t p = Inr out"
      "result st' = result st @ out"
      "hasTransformedContent st' = (hasTransformedContent st \<or> partTransforms t p)"
    from Cons.IH [of st'] show ?thesis
      using a by (auto)
  qed
qed

lemma transformMcpResponse_eq:
  "transformMcpResponse t ps =
     (case mapE (partOutput t) ps of
        Inl e \<Rightarrow> Inl e
      | Inr outs \<Rightarrow> Inr (if list_ex (partTransforms t) ps then concat outs else ps))"
  using transformParts_effect [of t initialState ps]
  by (auto simp: transformMcpResponse_def initialState_def)

section \<open>Facts about the blocks and the summarizers\<close>

lemma respondsWith_mock [simp]: "respondsWith (mockResponse items) items' = (items = items')"
  by (simp add: respondsWith_def mockResponse_def optProp_def)

lemma respondsWithError_mock [simp]:
  "respondsWithError (mockErrorResponse items) items' = (items = items')"
  by (simp add: respondsWithError_def mockErrorResponse_def optProp_def)

lemma isTextContent_textBlock [simp]: "isTextContent (textBlock s)"
  by (simp add: isTextContent_def textBlock_def)

lemma text_of_textBlock [simp]: "getProp (textBlock s) ''text'' = JStr s"
  by (simp add: textBlock_def)

lemma itemOutput_text:
  "isTextContent item \<Longrightarrow> itemOutput item = Inr [textPart (getProp item ''text'')]"
  by (simp add: itemOutput_def transformItem_def pushItem_def initialState_def)

lemma mapE_itemOutput_text:
  "\<forall>i \<in> set items. isTextContent i \<Longrightarrow>
   mapE itemOutput items = Inr (map (\<lambda>i. [textPart (getProp i ''text'')]) items)"
  by (induction items) (simp_all add: itemOutput_text)

lemma concat_singletons: "concat (map (\<lambda>i. [f i]) xs) = map f xs"
  by (induction xs) simp_all

lemma partOutput_empty: "respondsWith p [] \<Longrightarrow> partOutput t p = Inr []"
  by (simp add: partOutput_def transformPart_responds headerIf_def)

lemma partTransforms_empty: "respondsWith p [] \<Longrightarrow> \<not> partTransforms t p"
  by (simp add: partTransforms_def transformPart_responds initialState_def)

lemma partOutput_texts:
  "respondsWith p items \<Longrightarrow> \<forall>i \<in> set items. isTextContent i \<Longrightarrow>
   partOutput t p = Inr (map (\<lambda>i. textPart (getProp i ''text'')) items)"
  by (simp add: partOutput_def transformPart_responds mapE_itemOutput_text concat_singletons
                headerIf_def list_ex_iff)

lemma partTransforms_texts:
  "respondsWith p items \<Longrightarrow> \<forall>i \<in> set items. isTextContent i \<Longrightarrow>
   partTransforms t p = (items \<noteq> [])"
  by (simp add: partTransforms_def transformPart_responds mapE_itemOutput_text concat_singletons
                initialState_def)

lemma mapE_append:
  "mapE f (xs @ ys) = bindE (mapE f xs) (\<lambda>as. bindE (mapE f ys) (\<lambda>bs. Inr (as @ bs)))"
  by (induction xs) (simp_all add: bindE_def split: sum.splits)

lemma mapE_partOutput_empty:
  "\<forall>p \<in> set ps. respondsWith p [] \<Longrightarrow>
   mapE (partOutput t) ps = Inr (map (\<lambda>p. []) ps)"
  by (induction ps) (simp_all add: partOutput_empty)

lemma transform_all_empty:
  "\<forall>p \<in> set ps. respondsWith p [] \<Longrightarrow> transformMcpResponse t ps = Inr ps"
  by (simp add: transformMcpResponse_eq mapE_partOutput_empty list_ex_iff partTransforms_empty)

lemma concat_empties: "concat (map (\<lambda>p. []) ps) = []"
  by (induction ps) simp_all

lemma transform_texts_among_empty:
  assumes "\<forall>p \<in> set ps. respondsWith p []" "\<forall>p \<in> set qs. respondsWith p []"
    "respondsWith q items" "items \<noteq> []" "\<forall>i \<in> set items. isTextContent i"
  shows "transformMcpResponse t (ps @ q # qs)
           = Inr (map (\<lambda>i. textPart (getProp i ''text'')) items)"
proof -
  have "mapE (partOutput t) (ps @ [q] @ qs)
          = Inr (map (\<lambda>p. []) ps @ [map (\<lambda>i. textPart (getProp i ''text'')) items]
                 @ map (\<lambda>p. []) qs)"
    using assms by (simp add: mapE_append mapE_partOutput_empty partOutput_texts)
  moreover have "list_ex (partTransforms t) (ps @ [q] @ qs)"
    using assms by (simp add: list_ex_iff partTransforms_texts)
  ultimately show ?thesis
    by (simp add: transformMcpResponse_eq concat_empties)
qed

lemma transform_empty_then_texts:
  assumes "\<forall>p \<in> set ps. respondsWith p []" "respondsWith q items" "items \<noteq> []"
    "\<forall>i \<in> set items. isTextContent i"
  shows "transformMcpResponse t (ps @ [q]) = Inr (map (\<lambda>i. textPart (getProp i ''text'')) items)"
  using transform_texts_among_empty [of ps "[]" q items t] assms by simp

lemma mapE_all_Inr: "\<forall>x \<in> set xs. f x = Inr (g x) \<Longrightarrow> mapE f xs = Inr (map g xs)"
  by (induction xs) simp_all

lemma processFunctionResponse_content:
  assumes "\<not> nullish p" "truthy (getProp p ''functionResponse'')"
    "optProp (getProp (getProp p ''functionResponse'') ''response'') ''content'' = JArr items"
  shows "processFunctionResponse p =
     bindE (mapE processContentItem items) (\<lambda>processedContent.
       if list_all (\<lambda>item. typeof item = ''string'') processedContent
       then bindE (joinJS NL processedContent) (\<lambda>joined. Inr (JStr joined))
       else Inr (JArr processedContent))"
  using assms by (simp add: processFunctionResponse_def Let_def)

lemma display_single:
  "getStringifiedResultForDisplay stringify [p] =
     bindE (processFunctionResponse p) (\<lambda>r.
       case r of JStr text \<Rightarrow> Inr text | v \<Rightarrow> Inr (fence (stringify v)))"
  by (simp add: getStringifiedResultForDisplay_def)

lemma joinJS_Nil [simp]: "joinJS sep [] = Inr []"
  by (simp add: joinJS_def)

lemma display_empty_content:
  "respondsWith p [] \<Longrightarrow> getStringifiedResultForDisplay stringify [p] = Inr []"
  by (simp add: display_single processFunctionResponse_content respondsWith_def)

lemma mcpContentOf_eq:
  "transformMcpContentToParts parse raw =
     (if \<not> isArray (mcpContentOf raw)
      then Inr [textPart (JStr ''[Error: Could not parse tool response]'')]
      else bindE (mapE (transformBlock parse (toolNameOf raw)) (elems (mcpContentOf raw)))
             (\<lambda>transformed. Inr (filter (\<lambda>part. part \<noteq> JNull) (flatten1 transformed))))"
  by (simp add: transformMcpContentToParts_def mcpContentOf_def toolNameOf_def Let_def)

lemma display_part_000_eq:
  "getStringifiedResultForDisplay_part_000 stringify raw =
     (if \<not> isArray (mcpContentOf raw) then Inr (fence (stringify raw))
      else bindE (mapE displayBlock (elems (mcpContentOf raw)))
             (\<lambda>displayParts. joinJS NL displayParts))"
  by (simp add: getStringifiedResultForDisplay_part_000_def mcpContentOf_def Let_def)

lemma joinJS_strings:
  assumes "\<forall>x \<in> set xs. typeof x = ''string''"
  shows "joinJS sep xs = Inr (joinWith sep (map toStringJS xs))"
proof -
  have c: "\<And>x. x \<in> set xs \<Longrightarrow>
      stringConvertible x \<and> (if nullish x then [] else toStringJS x) = toStringJS x"
  proof -
    fix x assume "x \<in> set xs"
    with assms have "typeof x = ''string''" by blast
    then obtain s where "x = JStr s" using typeof_string by blast
    then show "stringConvertible x \<and> (if nullish x then [] else toStringJS x) = toStringJS x"
      by simp
  qed
  then have "list_all stringConvertible xs"
    by (simp add: list_all_iff)
  then show ?thesis
    unfolding joinJS_def using c by (simp cong: map_cong)
qed

lemma isTextContent_obj:
  "isTextContent item \<Longrightarrow> \<exists>kvs s. item = JObj kvs \<and> getProp item ''type'' = JStr ''text''
      \<and> getProp item ''text'' = JStr s"
  by (cases item) (auto simp: isTextContent_def dest: typeof_string)

lemma processContentItem_text:
  "isTextContent item \<Longrightarrow> processContentItem item = Inr (getProp item ''text'')"
proof -
  assume "isTextContent item"
  then obtain kvs s where i: "item = JObj kvs" "getProp item ''type'' = JStr ''text''"
      "getProp item ''text'' = JStr s"
    using isTextContent_obj by blast
  then show ?thesis
    unfolding processContentItem_def by (simp del: getProp.simps)
qed

lemma display_texts:
  assumes "\<not> nullish p" "truthy (getProp p ''functionResponse'')"
    "optProp (getProp (getProp p ''functionResponse'') ''response'') ''content'' = JArr items"
    "\<forall>i \<in> set items. isTextContent i"
  shows "getStringifiedResultForDisplay stringify [p]
           = Inr (joinWith NL (map (\<lambda>i. toStringJS (getProp i ''text'')) items))"
proof -
  have m: "mapE processContentItem items = Inr (map (\<lambda>i. getProp i ''text'') items)"
    using assms(4) by (intro mapE_all_Inr) (simp add: processContentItem_text)
  have s: "\<forall>x \<in> set (map (\<lambda>i. getProp i ''text'') items). typeof x = ''string''"
    using assms(4) by (auto simp: isTextContent_def)
  then have l: "list_all (\<lambda>item. typeof item = ''string'') (map (\<lambda>i. getProp i ''text'') items)"
    by (simp add: list_all_iff)
  show ?thesis
    using l by (simp add: display_single processFunctionResponse_content [OF assms(1,2,3)] m
               joinJS_strings [OF s] comp_def)
qed

lemma transformBlock_text:
  "isTextContent item \<Longrightarrow> transformBlock parse tn item = Inr (textPart (getProp item ''text''))"
proof -
  assume "isTextContent item"
  then obtain kvs s where i: "item = JObj kvs" "getProp item ''type'' = JStr ''text''"
      "getProp item ''text'' = JStr s"
    using isTextContent_obj by blast
  then show ?thesis
    unfolding transformBlock_def switchBlock_def by (simp del: getProp.simps)
qed

lemma flatten1_textParts: "flatten1 (map (\<lambda>i. textPart (f i)) xs) = map (\<lambda>i. textPart (f i)) xs"
  by (induction xs) (simp_all add: textPart_def)

lemma displayBlock_text:
  "isTextContent item \<Longrightarrow> displayBlock item = Inr (getProp item ''text'')"
proof -
  assume "isTextContent item"
  then obtain kvs s where i: "item = JObj kvs" "getProp item ''type'' = JStr ''text''"
      "getProp item ''text'' = JStr s"
    using isTextContent_obj by blast
  then show ?thesis
    unfolding displayBlock_def by (simp del: getProp.simps)
qed

section \<open>The whole-response fallback\<close>

text \<open>
  C1, as the code has it. \<open>transformMcpResponse\<close> returns the raw response itself
  when every part of it is a function response with an empty content array and no error
  flag; the choice is made once, after the loop: when one further part, at any position
  among them, contributes texts, the result is the list of these text parts and the
  parts with empty content leave no trace. The summarizer of \<open>mcp-tool.ts\<close> gives the empty string for a single part
  with empty content, and the fenced \<open>[]\<close> when the raw response has no part at all.
  In the second source file, an empty content array gives the empty list of parts and
  the empty string, and a raw response with no part gives the fenced rendering of that
  response.
\<close>

theorem empty_content_fallback:
  "((\<forall>p \<in> set ps. respondsWith p []) \<longrightarrow> transformMcpResponse t ps = Inr ps)
   \<and> ((\<forall>p \<in> set ps. respondsWith p []) \<and> (\<forall>p \<in> set qs. respondsWith p [])
        \<and> respondsWith q items \<and> items \<noteq> [] \<and> (\<forall>i \<in> set items. isTextContent i)
       \<longrightarrow> transformMcpResponse t (ps @ q # qs)
            = Inr (map (\<lambda>i. textPart (getProp i ''text'')) items))
   \<and> (respondsWith p [] \<longrightarrow> getStringifiedResultForDisplay stringify [p] = Inr [])
   \<and> getStringifiedResultForDisplay stringify [] = Inr (fence ''[]'')
   \<and> (mcpContentOf raw = JArr [] \<longrightarrow>
        transformMcpContentToParts parse raw = Inr []
        \<and> getStringifiedResultForDisplay_part_000 stringify raw = Inr [])
   \<and> getStringifiedResultForDisplay_part_000 stringify (JArr [])
       = Inr (fence (stringify (JArr [])))"
proof -
  have a: "(\<forall>p \<in> set ps. respondsWith p []) \<longrightarrow> transformMcpResponse t ps = Inr ps"
    by (simp add: transform_all_empty)
  have b: "(\<forall>p \<in> set ps. respondsWith p []) \<and> (\<forall>p \<in> set qs. respondsWith p [])
        \<and> respondsWith q items \<and> items \<noteq> [] \<and> (\<forall>i \<in> set items. isTextContent i)
       \<longrightarrow> transformMcpResponse t (ps @ q # qs)
            = Inr (map (\<lambda>i. textPart (getProp i ''text'')) items)"
    using transform_texts_among_empty by blast
  have c: "respondsWith p [] \<longrightarrow> getStringifiedResultForDisplay stringify [p] = Inr []"
    by (simp add: display_empty_content)
  have d: "getStringifiedResultForDisplay stringify [] = Inr (fence ''[]'')"
    by (simp add: getStringifiedResultForDisplay_def)
  have e: "mcpContentOf raw = JArr [] \<longrightarrow>
        transformMcpContentToParts parse raw = Inr []
        \<and> getStringifiedResultForDisplay_part_000 stringify raw = Inr []"
    by (simp add: mcpContentOf_eq display_part_000_eq)
  have f: "getStringifiedResultForDisplay_part_000 stringify (JArr [])
       = Inr (fence (stringify (JArr [])))"
    by (simp add: display_part_000_eq mcpContentOf_def optProp_def)
  from a b c d e f show ?thesis by blast
qed

text \<open>
  The responses with empty content of the tests, alone and around the response
  \<open>First response\<close>.
\<close>

theorem empty_content_fallback_witness:
  "transformMcpResponse mockTool [mockResponse [], mockResponse []]
     = Inr [mockResponse [], mockResponse []]
   \<and> transformMcpResponse mockTool
        [mockResponse [], mockResponse [], mockResponse [textBlock ''First response''],
         mockResponse []]
     = Inr [textPart (JStr ''First response'')]
   \<and> getStringifiedResultForDisplay noStringify [mockResponse []] = Inr []
   \<and> transformMcpContentToParts parseNothing (JArr [mockResponse []]) = Inr []
   \<and> getStringifiedResultForDisplay_part_000 noStringify (JArr [mockResponse []]) = Inr []"
proof -
  have c: "mcpContentOf (JArr [mockResponse []]) = JArr []"
    by (simp add: mcpContentOf_def mockResponse_def optProp_def)
  note th = empty_content_fallback
    [where ps = "[mockResponse [], mockResponse []]" and t = mockTool
       and qs = "[mockResponse []]"
       and q = "mockResponse [textBlock ''First response'']"
       and items = "[textBlock ''First response'']"
       and p = "mockResponse []" and stringify = noStringify
       and raw = "JArr [mockResponse []]" and parse = parseNothing]
  show ?thesis using th c by simp
qed

text \<open>
  The claim as stated fails: for a response whose content array is empty the summarizer
  returns the empty string, not the fenced \<open>[]\<close>; and when that response carries
  the error flag the transformer returns one error part, not the raw response.
\<close>

theorem empty_content_counterexample:
  "getStringifiedResultForDisplay noStringify [mockResponse []] = Inr []
   \<and> fence ''[]'' \<noteq> []
   \<and> transformMcpResponse mockTool [mockErrorResponse []]
       = Inr [textPart (JStr ''Error from actual-server-tool-name: Unknown error'')]
   \<and> [textPart (JStr ''Error from actual-server-tool-name: Unknown error'')]
       \<noteq> [mockErrorResponse []]"
proof -
  have a: "getStringifiedResultForDisplay noStringify [mockResponse []] = Inr []"
    by (simp add: display_empty_content)
  have b: "fence ''[]'' \<noteq> []"
    by (simp add: fence_def)
  have c: "transformMcpResponse mockTool [mockErrorResponse []]
       = Inr [textPart (JStr ''Error from actual-server-tool-name: Unknown error'')]"
    by (simp add: transformMcpResponse_def transformPart_error [of _ "[]"] errorPart_def
          errorText_def findJS_def optProp_def initialState_def mockTool_def)
  have d: "[textPart (JStr ''Error from actual-server-tool-name: Unknown error'')]
       \<noteq> [mockErrorResponse []]"
    by (simp add: textPart_def mockErrorResponse_def)
  from a b c d show ?thesis by blast
qed

section \<open>Error responses\<close>

text \<open>
  C3, as the code has it. For a part whose error flag is set (and whose content is an
  array), the outer loop pushes exactly one part and looks at no item otherwise:
  \<open>Error from\<close>, the tool's name, a colon, and the text of the first item that is a
  text block when that text is not empty, \<open>Unknown error\<close> when there is no text
  block or the first one has an empty text. A response of that one part is transformed
  into that one part.
\<close>

theorem error_response_one_part:
  "respondsWithError part items \<longrightarrow>
     partOutput t part
       = Inr [textPart (JStr (''Error from '' @ serverToolName t @ '': ''
                @ (case find isTextContent items of
                     None \<Rightarrow> ''Unknown error''
                   | Some item \<Rightarrow>
                       (if toStringJS (getProp item ''text'') = [] then ''Unknown error''
                        else toStringJS (getProp item ''text'')))))]
     \<and> transformMcpResponse t [part]
       = Inr [textPart (JStr (''Error from '' @ serverToolName t @ '': ''
                @ (case find isTextContent items of
                     None \<Rightarrow> ''Unknown error''
                   | Some item \<Rightarrow>
                       (if toStringJS (getProp item ''text'') = [] then ''Unknown error''
                        else toStringJS (getProp item ''text'')))))]"
proof
  assume e: "respondsWithError part items"
  have out: "partOutput t part = Inr [errorPart t items]"
    using e by (simp add: partOutput_def transformPart_error)
  have flag: "partTransforms t part"
    using e by (simp add: partTransforms_def transformPart_error)
  have whole: "transformMcpResponse t [part] = Inr [errorPart t items]"
    by (simp add: transformMcpResponse_eq out flag)
  show "partOutput t part
       = Inr [textPart (JStr (''Error from '' @ serverToolName t @ '': ''
                @ (case find isTextContent items of
                     None \<Rightarrow> ''Unknown error''
                   | Some item \<Rightarrow>
                       (if toStringJS (getProp item ''text'') = [] then ''Unknown error''
                        else toStringJS (getProp item ''text'')))))]
     \<and> transformMcpResponse t [part]
       = Inr [textPart (JStr (''Error from '' @ serverToolName t @ '': ''
                @ (case find isTextContent items of
                     None \<Rightarrow> ''Unknown error''
                   | Some item \<Rightarrow>
                       (if toStringJS (getProp item ''text'') = [] then ''Unknown error''
                        else toStringJS (getProp item ''text'')))))]"
    using out whole unfolding errorPart_def errorText_eq by simp
qed

text \<open>
  The response \<open>not found\<close> of the claim, and an error response without a text
  block.
\<close>

theorem error_response_one_part_witness:
  "transformMcpResponse mockTool [mockErrorResponse [textBlock ''not found'']]
     = Inr [textPart (JStr ''Error from actual-server-tool-name: not found'')]
   \<and> transformMcpResponse mockTool [mockErrorResponse [mediaBlock ''image'' JNull JNull]]
     = Inr [textPart (JStr ''Error from actual-server-tool-name: Unknown error'')]"
proof -
  have a: "respondsWithError (mockErrorResponse [textBlock ''not found'']) [textBlock ''not found'']"
    by simp
  have b: "respondsWithError (mockErrorResponse [mediaBlock ''image'' JNull JNull])
             [mediaBlock ''image'' JNull JNull]"
    by simp
  have nt: "\<not> isTextContent (mediaBlock ''image'' JNull JNull)"
    by (simp add: isTextContent_def mediaBlock_def)
  from error_response_one_part [of _ "[textBlock ''not found'']" mockTool] a
       error_response_one_part [of _ "[mediaBlock ''image'' JNull JNull]" mockTool] b nt
  show ?thesis
    by (simp add: mockTool_def)
qed

text \<open>
  The claim as stated fails: when the first text block has an empty text and a second
  one reads \<open>boom\<close>, the part reads \<open>Unknown error\<close>; it holds neither the first
  literal text (the empty one) nor the first text that is not empty.
\<close>

theorem error_response_counterexample:
  "transformMcpResponse mockTool [mockErrorResponse [textBlock [], textBlock ''boom'']]
     = Inr [textPart (JStr ''Error from actual-server-tool-name: Unknown error'')]
   \<and> textPart (JStr ''Error from actual-server-tool-name: Unknown error'')
       \<noteq> textPart (JStr ''Error from actual-server-tool-name: '')
   \<and> textPart (JStr ''Error from actual-server-tool-name: Unknown error'')
       \<noteq> textPart (JStr ''Error from actual-server-tool-name: boom'')"
proof -
  have e: "respondsWithError (mockErrorResponse [textBlock [], textBlock ''boom''])
             [textBlock [], textBlock ''boom'']"
    by simp
  have "transformMcpResponse mockTool [mockErrorResponse [textBlock [], textBlock ''boom'']]
     = Inr [textPart (JStr ''Error from actual-server-tool-name: Unknown error'')]"
    by (simp add: transformMcpResponse_def transformPart_error [OF e] errorPart_def
          errorText_eq mockTool_def)
  then show ?thesis
    by (simp add: textPart_def)
qed

section \<open>Responses of text blocks only\<close>

text \<open>
  C4, as the code has it. For a single part without error flag whose content is a
  non-empty array of text blocks, \<open>transformMcpResponse\<close> returns exactly the texts
  as \<open>text\<close> parts, in order, and the summarizer returns the texts joined by
  newlines. The transformer and the summarizer of the second source file do so for
  every array of text blocks, the empty one included.
\<close>

theorem text_only_content:
  "(respondsWith part items \<and> items \<noteq> [] \<and> (\<forall>i \<in> set items. isTextContent i) \<longrightarrow>
      transformMcpResponse t [part] = Inr (map (\<lambda>i. textPart (getProp i ''text'')) items)
      \<and> getStringifiedResultForDisplay stringify [part]
          = Inr (joinWith NL (map (\<lambda>i. toStringJS (getProp i ''text'')) items)))
   \<and> (mcpContentOf raw = JArr items \<and> (\<forall>i \<in> set items. isTextContent i) \<longrightarrow>
      transformMcpContentToParts parse raw
          = Inr (map (\<lambda>i. textPart (getProp i ''text'')) items)
      \<and> getStringifiedResultForDisplay_part_000 stringify raw
          = Inr (joinWith NL (map (\<lambda>i. toStringJS (getProp i ''text'')) items)))"
proof -
  have a: "respondsWith part items \<and> items \<noteq> [] \<and> (\<forall>i \<in> set items. isTextContent i) \<longrightarrow>
      transformMcpResponse t [part] = Inr (map (\<lambda>i. textPart (getProp i ''text'')) items)
      \<and> getStringifiedResultForDisplay stringify [part]
          = Inr (joinWith NL (map (\<lambda>i. toStringJS (getProp i ''text'')) items))"
  proof
    assume h: "respondsWith part items \<and> items \<noteq> [] \<and> (\<forall>i \<in> set items. isTextContent i)"
    then have r: "respondsWith part items" and ne: "items \<noteq> []"
      and tx: "\<forall>i \<in> set items. isTextContent i" by blast+
    have tr: "transformMcpResponse t [part]
                = Inr (map (\<lambda>i. textPart (getProp i ''text'')) items)"
      using transform_empty_then_texts [of "[]" part items t] r ne tx by simp
    have di: "getStringifiedResultForDisplay stringify [part]
          = Inr (joinWith NL (map (\<lambda>i. toStringJS (getProp i ''text'')) items))"
      using r tx by (intro display_texts) (simp_all add: respondsWith_def)
    from tr di show "transformMcpResponse t [part]
          = Inr (map (\<lambda>i. textPart (getProp i ''text'')) items)
      \<and> getStringifiedResultForDisplay stringify [part]
          = Inr (joinWith NL (map (\<lambda>i. toStringJS (getProp i ''text'')) items))"
      by blast
  qed
  have b: "mcpContentOf raw = JArr items \<and> (\<forall>i \<in> set items. isTextContent i) \<longrightarrow>
      transformMcpContentToParts parse raw
          = Inr (map (\<lambda>i. textPart (getProp i ''text'')) items)
      \<and> getStringifiedResultForDisplay_part_000 stringify raw
          = Inr (joinWith NL (map (\<lambda>i. toStringJS (getProp i ''text'')) items))"
  proof
    assume h: "mcpContentOf raw = JArr items \<and> (\<forall>i \<in> set items. isTextContent i)"
    then have c: "mcpContentOf raw = JArr items"
      and tx: "\<forall>i \<in> set items. isTextContent i" by blast+
    have m1: "\<And>tn. mapE (transformBlock parse tn) items
                = Inr (map (\<lambda>i. textPart (getProp i ''text'')) items)"
      using tx by (intro mapE_all_Inr) (simp add: transformBlock_text)
    have nn: "filter (\<lambda>part. part \<noteq> JNull) (map (\<lambda>i. textPart (getProp i ''text'')) items)
                = map (\<lambda>i. textPart (getProp i ''text'')) items"
      by (induction items) (simp_all add: textPart_def)
    have tr: "transformMcpContentToParts parse raw
          = Inr (map (\<lambda>i. textPart (getProp i ''text'')) items)"
      by (simp add: mcpContentOf_eq c m1 flatten1_textParts nn)
    have m2: "mapE displayBlock items = Inr (map (\<lambda>i. getProp i ''text'') items)"
      using tx by (intro mapE_all_Inr) (simp add: displayBlock_text)
    have s: "\<forall>x \<in> set (map (\<lambda>i. getProp i ''text'') items). typeof x = ''string''"
      using tx by (auto simp: isTextContent_def)
    have di: "getStringifiedResultForDisplay_part_000 stringify raw
          = Inr (joinWith NL (map (\<lambda>i. toStringJS (getProp i ''text'')) items))"
      by (simp add: display_part_000_eq c m2 joinJS_strings [OF s] comp_def)
    from tr di show "transformMcpContentToParts parse raw
          = Inr (map (\<lambda>i. textPart (getProp i ''text'')) items)
      \<and> getStringifiedResultForDisplay_part_000 stringify raw
          = Inr (joinWith NL (map (\<lambda>i. toStringJS (getProp i ''text'')) items))"
      by blast
  qed
  from a b show ?thesis by blast
qed

text \<open>
  Two text blocks in the envelope of the tests.
\<close>

theorem text_only_content_witness:
  "transformMcpResponse mockTool [mockResponse [textBlock ''one'', textBlock ''two'']]
     = Inr [textPart (JStr ''one''), textPart (JStr ''two'')]
   \<and> getStringifiedResultForDisplay noStringify [mockResponse [textBlock ''one'', textBlock ''two'']]
     = Inr (''one'' @ NL @ ''two'')
   \<and> transformMcpContentToParts parseNothing (JArr [mockResponse [textBlock ''one'', textBlock ''two'']])
     = Inr [textPart (JStr ''one''), textPart (JStr ''two'')]
   \<and> getStringifiedResultForDisplay_part_000 noStringify
        (JArr [mockResponse [textBlock ''one'', textBlock ''two'']])
     = Inr (''one'' @ NL @ ''two'')"
proof -
  have c: "mcpContentOf (JArr [mockResponse [textBlock ''one'', textBlock ''two'']])
             = JArr [textBlock ''one'', textBlock ''two'']"
    by (simp add: mcpContentOf_def mockResponse_def optProp_def)
  from text_only_content
    [of "mockResponse [textBlock ''one'', textBlock ''two'']"
        "[textBlock ''one'', textBlock ''two'']" mockTool noStringify
        "JArr [mockResponse [textBlock ''one'', textBlock ''two'']]" parseNothing] c
  show ?thesis by simp
qed

text \<open>
  The claim as stated fails in \<open>mcp-tool.ts\<close>: for the empty content array the
  output is the raw response, not the empty list of parts; for an array of one text
  block under the error flag it is the error part, not the text.
\<close>

theorem text_only_content_counterexample:
  "transformMcpResponse mockTool [mockResponse []] = Inr [mockResponse []]
   \<and> [mockResponse []] \<noteq> []
   \<and> transformMcpResponse mockTool [mockErrorResponse [textBlock ''a'']]
       = Inr [textPart (JStr ''Error from actual-server-tool-name: a'')]
   \<and> [textPart (JStr ''Error from actual-server-tool-name: a'')] \<noteq> [textPart (JStr ''a'')]"
proof -
  have a: "transformMcpResponse mockTool [mockResponse []] = Inr [mockResponse []]"
    by (simp add: transform_all_empty)
  have e: "respondsWithError (mockErrorResponse [textBlock ''a'']) [textBlock ''a'']"
    by simp
  have b: "transformMcpResponse mockTool [mockErrorResponse [textBlock ''a'']]
       = Inr [textPart (JStr ''Error from actual-server-tool-name: a'')]"
    by (simp add: transformMcpResponse_def transformPart_error [OF e] errorPart_def
          errorText_eq mockTool_def)
  show ?thesis using a b by (simp add: textPart_def)
qed

section \<open>Media blocks without data or mime type\<close>

lemma getProp_JStr_obj: "getProp item k = JStr s \<Longrightarrow> \<exists>kvs. item = JObj kvs"
  by (cases item) simp_all

lemma hasKey_getProp: "getProp item k = JStr s \<Longrightarrow> hasKey k item"
  by (cases item) (auto split: option.splits)

lemma media_not_text: "ty \<in> set MCP_MEDIA_TYPES \<Longrightarrow> ty \<noteq> ''text'' \<and> ty \<noteq> ''resource''"
  by (auto simp: MCP_MEDIA_TYPES_def)

lemma typed_not_text:
  "getProp item ''type'' = JStr ty \<Longrightarrow> ty \<noteq> ''text'' \<Longrightarrow> \<not> isTextContent item"
  by (simp add: isTextContent_def)

lemma typed_not_resource:
  "getProp item ''type'' = JStr ty \<Longrightarrow> ty \<noteq> ''resource'' \<Longrightarrow> isResourceContent item = Inr False"
  by (simp add: isResourceContent_def)

lemma itemOutput_invalid_media:
  assumes ty: "getProp item ''type'' = JStr ty" "ty \<in> set MCP_MEDIA_TYPES"
    and bad: "typeof (getProp item ''data'') \<noteq> ''string''
              \<or> typeof (getProp item ''mimeType'') \<noteq> ''string''"
  shows "itemOutput item = Inr [textPart (JStr invalidMediaText)]"
proof -
  obtain kvs where obj: "item = JObj kvs" using ty(1) getProp_JStr_obj by blast
  have nt: "\<not> isTextContent item"
    using ty media_not_text typed_not_text by blast
  have nr: "isResourceContent item = Inr False"
    using ty media_not_text typed_not_resource by blast
  have hk: "hasKey ''type'' item" using ty(1) by (rule hasKey_getProp)
  have tr: "truthy item" "typeof item = ''object''" by (simp_all add: obj)
  have inc: "includesJS MCP_MEDIA_TYPES (getProp item ''type'')"
    using ty by simp
  show ?thesis
  proof (cases "isMediaContent item")
    case True
    then show ?thesis
      using nt bad by (auto simp: itemOutput_def transformItem_def pushItem_def)
  next
    case False
    then show ?thesis
      using nt nr hk tr inc ty(1)
      by (simp add: itemOutput_def transformItem_def pushItem_def Let_def del: getProp.simps)
  qed
qed

lemma respondsWith_single:
  assumes "respondsWith part [item]" "itemOutput item = Inr ps"
  shows "partOutput t part = Inr (headerIf t ps @ ps)"
    and "partTransforms t part = (ps \<noteq> [])"
  using assms by (simp_all add: partOutput_def partTransforms_def transformPart_responds)

text \<open>
  C5, as the code has it. In \<open>mcp-tool.ts\<close>, for every block whose type is one of the
  four media types and whose \<open>data\<close>
  or \<open>mimeType\<close> is missing, \<open>null\<close> or not a string, the inner loop of
  \<open>transformMcpResponse\<close> pushes the one placeholder part and no \<open>inlineData\<close>
  part; a response whose content is that block alone is transformed into the
  placeholder alone.
\<close>

theorem invalid_media_placeholder:
  "getProp item ''type'' = JStr ty \<and> ty \<in> set MCP_MEDIA_TYPES
   \<and> (typeof (getProp item ''data'') \<noteq> ''string''
      \<or> typeof (getProp item ''mimeType'') \<noteq> ''string'')
   \<longrightarrow> itemOutput item = Inr [textPart (JStr ''[Invalid media: missing data or mimeType]'')]
       \<and> \<not> producesMedia item
       \<and> (respondsWith part [item] \<longrightarrow>
            transformMcpResponse t [part]
              = Inr [textPart (JStr ''[Invalid media: missing data or mimeType]'')])"
proof
  assume h: "getProp item ''type'' = JStr ty \<and> ty \<in> set MCP_MEDIA_TYPES
   \<and> (typeof (getProp item ''data'') \<noteq> ''string''
      \<or> typeof (getProp item ''mimeType'') \<noteq> ''string'')"
  then have out: "itemOutput item = Inr [textPart (JStr invalidMediaText)]"
    using itemOutput_invalid_media by blast
  have nm: "\<not> producesMedia item"
    by (simp add: producesMedia_def out)
  have whole: "respondsWith part [item] \<longrightarrow>
            transformMcpResponse t [part] = Inr [textPart (JStr invalidMediaText)]"
  proof
    assume r: "respondsWith part [item]"
    from respondsWith_single [OF r out, of t]
    show "transformMcpResponse t [part] = Inr [textPart (JStr invalidMediaText)]"
      by (simp add: transformMcpResponse_eq headerIf_def)
  qed
  from out nm whole
  show "itemOutput item = Inr [textPart (JStr ''[Invalid media: missing data or mimeType]'')]
       \<and> \<not> producesMedia item
       \<and> (respondsWith part [item] \<longrightarrow>
            transformMcpResponse t [part]
              = Inr [textPart (JStr ''[Invalid media: missing data or mimeType]'')])"
    by (simp add: invalidMediaText_def)
qed

text \<open>
  The image with \<open>mimeType: null\<close> of the tests, a video without \<open>data\<close>, and
  a document whose \<open>data\<close> is a number.
\<close>

theorem invalid_media_placeholder_witness:
  "itemOutput (mediaBlock ''image'' (JStr ''someData'') JNull)
     = Inr [textPart (JStr ''[Invalid media: missing data or mimeType]'')]
   \<and> transformMcpResponse mockTool [mockResponse [mediaBlock ''image'' (JStr ''someData'') JNull]]
     = Inr [textPart (JStr ''[Invalid media: missing data or mimeType]'')]
   \<and> itemOutput (JObj [(''type'', JStr ''video''), (''mimeType'', JStr ''video/mp4'')])
     = Inr [textPart (JStr ''[Invalid media: missing data or mimeType]'')]
   \<and> itemOutput (mediaBlock ''pdf'' (JNum ''7'') (JStr ''application/pdf''))
     = Inr [textPart (JStr ''[Invalid media: missing data or mimeType]'')]"
proof -
  have m: "''image'' \<in> set MCP_MEDIA_TYPES" "''video'' \<in> set MCP_MEDIA_TYPES"
    "''pdf'' \<in> set MCP_MEDIA_TYPES"
    by (simp_all add: MCP_MEDIA_TYPES_def)
  note a = invalid_media_placeholder
    [of "mediaBlock ''image'' (JStr ''someData'') JNull" "''image''"
        "mockResponse [mediaBlock ''image'' (JStr ''someData'') JNull]" mockTool]
  note b = invalid_media_placeholder
    [of "JObj [(''type'', JStr ''video''), (''mimeType'', JStr ''video/mp4'')]" "''video''"]
  note c = invalid_media_placeholder
    [of "mediaBlock ''pdf'' (JNum ''7'') (JStr ''application/pdf'')" "''pdf''"]
  have a': "itemOutput (mediaBlock ''image'' (JStr ''someData'') JNull)
     = Inr [textPart (JStr ''[Invalid media: missing data or mimeType]'')]
   \<and> transformMcpResponse mockTool [mockResponse [mediaBlock ''image'' (JStr ''someData'') JNull]]
     = Inr [textPart (JStr ''[Invalid media: missing data or mimeType]'')]"
    using a m by (simp add: mediaBlock_def)
  have b': "itemOutput (JObj [(''type'', JStr ''video''), (''mimeType'', JStr ''video/mp4'')])
     = Inr [textPart (JStr ''[Invalid media: missing data or mimeType]'')]"
    using b m by simp
  have c': "itemOutput (mediaBlock ''pdf'' (JNum ''7'') (JStr ''application/pdf''))
     = Inr [textPart (JStr ''[Invalid media: missing data or mimeType]'')]"
    using c m by (simp add: mediaBlock_def)
  from a' b' c' show ?thesis by blast
qed

text \<open>
  The claim as stated fails for the transformer of the second source file, which checks
  neither field: the image with \<open>mimeType: null\<close> gives an informational text and an
  \<open>inlineData\<close> part, and a video without \<open>data\<close> gives nothing.
\<close>

theorem invalid_media_counterexample:
  "transformMcpContentToParts parseNothing
     (JArr [mockResponse [mediaBlock ''image'' (JStr ''someData'') JNull]])
   = Inr [textPart (JStr (''[Tool '' @ APOS @ ''actual-server-tool-name'' @ APOS
            @ '' provided the following image data with mime-type: null]'')),
          JObj [(''inlineData'', JObj [(''mimeType'', JNull), (''data'', JStr ''someData'')])]]
   \<and> isInlineDataPart
         (JObj [(''inlineData'', JObj [(''mimeType'', JNull), (''data'', JStr ''someData'')])])
   \<and> transformMcpContentToParts parseNothing
         (JArr [mockResponse [mediaBlock ''video'' JNull (JStr ''video/mp4'')]])
       = Inr []"
proof -
  have a: "transformMcpContentToParts parseNothing
     (JArr [mockResponse [mediaBlock ''image'' (JStr ''someData'') JNull]])
   = Inr [textPart (JStr (''[Tool '' @ APOS @ ''actual-server-tool-name'' @ APOS
            @ '' provided the following image data with mime-type: null]'')),
          JObj [(''inlineData'', JObj [(''mimeType'', JNull), (''data'', JStr ''someData'')])]]"
    by (simp add: transformMcpContentToParts_def mockResponse_def mediaBlock_def optProp_def
          orJS_def transformBlock_def switchBlock_def textPart_def)
  have b: "isInlineDataPart
         (JObj [(''inlineData'', JObj [(''mimeType'', JNull), (''data'', JStr ''someData'')])])"
    by (simp add: isInlineDataPart_def)
  have c: "transformMcpContentToParts parseNothing
         (JArr [mockResponse [mediaBlock ''video'' JNull (JStr ''video/mp4'')]])
       = Inr []"
    by (simp add: transformMcpContentToParts_def mockResponse_def mediaBlock_def optProp_def
          orJS_def transformBlock_def switchBlock_def)
  from a b c show ?thesis by blast
qed

section \<open>The header of a part with media\<close>

lemma itemOutput_valid_media:
  assumes ty: "getProp item ''type'' = JStr ty" "ty \<in> set MCP_MEDIA_TYPES"
    and d: "getProp item ''data'' = JStr d" "d \<noteq> []"
    and m: "getProp item ''mimeType'' = JStr m" "m \<noteq> []"
  shows "itemOutput item = Inr [inlineDataPart (JStr d) (JStr m)]"
proof -
  obtain kvs where obj: "item = JObj kvs" using ty(1) getProp_JStr_obj by blast
  have nt: "\<not> isTextContent item"
    using ty media_not_text typed_not_text by blast
  have hk: "hasKey ''type'' item" "hasKey ''data'' item" "hasKey ''mimeType'' item"
    using ty(1) d(1) m(1) by (blast intro: hasKey_getProp)+
  have to: "typeof item = ''object''" "item \<noteq> JNull" by (simp_all add: obj)
  have med: "isMediaContent item"
    using hk to ty d m by (simp add: isMediaContent_def del: getProp.simps)
  show ?thesis
    using nt med d m by (simp add: itemOutput_def transformItem_def pushItem_def)
qed

lemma media_iff:
  "mapE itemOutput items = Inr pss \<Longrightarrow>
   list_ex isInlineDataPart (concat pss) = list_ex producesMedia items"
proof (induction items arbitrary: pss)
  case Nil
  then show ?case by simp
next
  case (Cons item items)
  then obtain ps rest where p: "itemOutput item = Inr ps" "mapE itemOutput items = Inr rest"
      "pss = ps # rest"
    by (auto simp: bindE_def split: sum.splits)
  from Cons.IH [OF p(2)] show ?case
    by (simp add: p producesMedia_def)
qed

lemma partOutput_responds:
  assumes "respondsWith part items" "mapE itemOutput items = Inr pss"
  shows "partOutput t part
           = Inr ((if list_ex producesMedia items then [responseHeader t] else []) @ concat pss)"
  using assms media_iff [OF assms(2)]
  by (simp add: partOutput_def transformPart_responds headerIf_def)

lemma processContentItem_image:
  "processContentItem (mediaBlock ''image'' (JStr ''AAA'') (JStr ''image/png''))
     = Inr (JStr ''[Image: image/png]'')"
  by (simp add: processContentItem_def mediaBlock_def)

text \<open>
  C6, as the code has it. In \<open>mcp-tool.ts\<close>, a response whose content is the one
  image block \<open>{type: image, data: AAA,
  mimeType: image/png}\<close> is transformed into the header \<open>[Response from t (s MCP
  Server)]\<close>, with the names of the tool and its server, followed by the
  \<open>inlineData\<close> part, and its display string is \<open>[Image: image/png]\<close>. In
  general, what the outer loop appends for a part with content \<open>items\<close> is the
  header, exactly when one of the items produces an \<open>inlineData\<close> part, followed by
  what the items produce, in order; and the transformed response is the concatenation of
  what its parts give. A part whose items are text blocks only gives the texts and no
  header; a block of a media type whose \<open>data\<close> and \<open>mimeType\<close> are non-empty
  strings produces an \<open>inlineData\<close> part.
\<close>

theorem media_header:
  "(respondsWith part [mediaBlock ''image'' (JStr ''AAA'') (JStr ''image/png'')] \<longrightarrow>
      transformMcpResponse t [part]
        = Inr [textPart (JStr (''[Response from '' @ serverToolName t @ '' ('' @ serverName t
                               @ '' MCP Server)]'')),
               inlineDataPart (JStr ''AAA'') (JStr ''image/png'')]
      \<and> getStringifiedResultForDisplay stringify [part] = Inr ''[Image: image/png]'')
   \<and> (respondsWith part' items \<and> mapE itemOutput items = Inr pss \<longrightarrow>
      partOutput t part'
        = Inr ((if list_ex producesMedia items then [responseHeader t] else []) @ concat pss))
   \<and> (mapE (partOutput t) ps = Inr outs \<and> list_ex (partTransforms t) ps \<longrightarrow>
      transformMcpResponse t ps = Inr (concat outs))
   \<and> (respondsWith q texts \<and> (\<forall>i \<in> set texts. isTextContent i) \<longrightarrow>
      partOutput t q = Inr (map (\<lambda>i. textPart (getProp i ''text'')) texts))
   \<and> (getProp item ''type'' = JStr ty \<and> ty \<in> set MCP_MEDIA_TYPES
       \<and> getProp item ''data'' = JStr d \<and> d \<noteq> []
       \<and> getProp item ''mimeType'' = JStr m \<and> m \<noteq> [] \<longrightarrow>
      itemOutput item = Inr [inlineDataPart (JStr d) (JStr m)] \<and> producesMedia item)"
proof -
  let ?img = "mediaBlock ''image'' (JStr ''AAA'') (JStr ''image/png'')"
  have io: "itemOutput ?img = Inr [inlineDataPart (JStr ''AAA'') (JStr ''image/png'')]"
    by (rule itemOutput_valid_media [of _ "''image''"])
       (simp_all add: mediaBlock_def MCP_MEDIA_TYPES_def)
  have a: "respondsWith part [?img] \<longrightarrow>
      transformMcpResponse t [part]
        = Inr [textPart (JStr (''[Response from '' @ serverToolName t @ '' ('' @ serverName t
                               @ '' MCP Server)]'')),
               inlineDataPart (JStr ''AAA'') (JStr ''image/png'')]
      \<and> getStringifiedResultForDisplay stringify [part] = Inr ''[Image: image/png]''"
  proof
    assume r: "respondsWith part [?img]"
    from respondsWith_single [OF r io, of t]
    have tr: "transformMcpResponse t [part]
        = Inr [responseHeader t, inlineDataPart (JStr ''AAA'') (JStr ''image/png'')]"
      by (simp add: transformMcpResponse_eq headerIf_def)
    have di: "getStringifiedResultForDisplay stringify [part] = Inr ''[Image: image/png]''"
      using r by (simp add: display_single processFunctionResponse_content [of part "[?img]"]
                    respondsWith_def processContentItem_image joinJS_def toStringOrThrow_def)
    from tr di show "transformMcpResponse t [part]
        = Inr [textPart (JStr (''[Response from '' @ serverToolName t @ '' ('' @ serverName t
                               @ '' MCP Server)]'')),
               inlineDataPart (JStr ''AAA'') (JStr ''image/png'')]
      \<and> getStringifiedResultForDisplay stringify [part] = Inr ''[Image: image/png]''"
      by (simp add: responseHeader_def)
  qed
  have b: "respondsWith part' items \<and> mapE itemOutput items = Inr pss \<longrightarrow>
      partOutput t part'
        = Inr ((if list_ex producesMedia items then [responseHeader t] else []) @ concat pss)"
    using partOutput_responds by blast
  have c: "mapE (partOutput t) ps = Inr outs \<and> list_ex (partTransforms t) ps \<longrightarrow>
      transformMcpResponse t ps = Inr (concat outs)"
    by (simp add: transformMcpResponse_eq)
  have d: "respondsWith q texts \<and> (\<forall>i \<in> set texts. isTextContent i) \<longrightarrow>
      partOutput t q = Inr (map (\<lambda>i. textPart (getProp i ''text'')) texts)"
    using partOutput_texts by blast
  have e: "getProp item ''type'' = JStr ty \<and> ty \<in> set MCP_MEDIA_TYPES
       \<and> getProp item ''data'' = JStr d \<and> d \<noteq> []
       \<and> getProp item ''mimeType'' = JStr m \<and> m \<noteq> [] \<longrightarrow>
      itemOutput item = Inr [inlineDataPart (JStr d) (JStr m)] \<and> producesMedia item"
  proof
    assume h: "getProp item ''type'' = JStr ty \<and> ty \<in> set MCP_MEDIA_TYPES
       \<and> getProp item ''data'' = JStr d \<and> d \<noteq> []
       \<and> getProp item ''mimeType'' = JStr m \<and> m \<noteq> []"
    then have o: "itemOutput item = Inr [inlineDataPart (JStr d) (JStr m)]"
      using itemOutput_valid_media by blast
    then show "itemOutput item = Inr [inlineDataPart (JStr d) (JStr m)] \<and> producesMedia item"
      by (simp add: producesMedia_def)
  qed
  from a b c d e show ?thesis by blast
qed

text \<open>
  The scenario of the claim for the tool \<open>t\<close> of the server \<open>s\<close>, and the two
  sibling parts of the tests: the part of text has no header, the part with the image
  has one.
\<close>

theorem media_header_witness:
  "transformMcpResponse toolT [mockResponse [mediaBlock ''image'' (JStr ''AAA'') (JStr ''image/png'')]]
     = Inr [textPart (JStr ''[Response from t (s MCP Server)]''),
            inlineDataPart (JStr ''AAA'') (JStr ''image/png'')]
   \<and> getStringifiedResultForDisplay noStringify
        [mockResponse [mediaBlock ''image'' (JStr ''AAA'') (JStr ''image/png'')]]
     = Inr ''[Image: image/png]''
   \<and> producesMedia (mediaBlock ''image'' (JStr ''AAA'') (JStr ''image/png''))
   \<and> partOutput toolT (mockResponse [textBlock ''First response''])
     = Inr [textPart (JStr ''First response'')]
   \<and> partOutput toolT (mockResponse [mediaBlock ''image'' (JStr ''AAA'') (JStr ''image/png'')])
     = Inr [textPart (JStr ''[Response from t (s MCP Server)]''),
            inlineDataPart (JStr ''AAA'') (JStr ''image/png'')]
   \<and> transformMcpResponse toolT
        [mockResponse [textBlock ''First response''],
         mockResponse [mediaBlock ''image'' (JStr ''AAA'') (JStr ''image/png'')]]
     = Inr [textPart (JStr ''First response''),
            textPart (JStr ''[Response from t (s MCP Server)]''),
            inlineDataPart (JStr ''AAA'') (JStr ''image/png'')]"
proof -
  let ?img = "mediaBlock ''image'' (JStr ''AAA'') (JStr ''image/png'')"
  let ?p1 = "mockResponse [textBlock ''First response'']"
  let ?p2 = "mockResponse [?img]"
  have io: "itemOutput ?img = Inr [inlineDataPart (JStr ''AAA'') (JStr ''image/png'')]"
    by (rule itemOutput_valid_media [of _ "''image''"])
       (simp_all add: mediaBlock_def MCP_MEDIA_TYPES_def)
  have it: "itemOutput (textBlock ''First response'') = Inr [textPart (JStr ''First response'')]"
    by (simp add: itemOutput_text)
  have pm: "producesMedia ?img" "\<not> producesMedia (textBlock ''First response'')"
    by (simp_all add: producesMedia_def io it)
  have hd: "responseHeader toolT = textPart (JStr ''[Response from t (s MCP Server)]'')"
    by (simp add: responseHeader_def toolT_def)
  note s = media_header [of ?p2 toolT noStringify]
  have a: "transformMcpResponse toolT [?p2]
     = Inr [textPart (JStr ''[Response from t (s MCP Server)]''),
            inlineDataPart (JStr ''AAA'') (JStr ''image/png'')]
   \<and> getStringifiedResultForDisplay noStringify [?p2] = Inr ''[Image: image/png]''"
    using s by (simp add: toolT_def)
  have pm': "producesMedia ?img"
    using media_header [of ?p2 toolT noStringify _ _ _ _ _ _ _ ?img "''image''" "''AAA''"
             "''image/png''"]
    by (simp add: mediaBlock_def MCP_MEDIA_TYPES_def)
  have o1: "partOutput toolT ?p1 = Inr [textPart (JStr ''First response'')]"
    using media_header [of ?p2 toolT noStringify _ _ _ _ _ ?p1 "[textBlock ''First response'']"]
    by simp
  have o2: "partOutput toolT ?p2
     = Inr [textPart (JStr ''[Response from t (s MCP Server)]''),
            inlineDataPart (JStr ''AAA'') (JStr ''image/png'')]"
    using media_header [of ?p2 toolT noStringify ?p2 "[?img]"
             "[[inlineDataPart (JStr ''AAA'') (JStr ''image/png'')]]"] io pm hd
    by simp
  have fl: "partTransforms toolT ?p1"
    using respondsWith_single(2) [of ?p1 "textBlock ''First response''" _ toolT] it by simp
  have w: "transformMcpResponse toolT [?p1, ?p2]
     = Inr [textPart (JStr ''First response''),
            textPart (JStr ''[Response from t (s MCP Server)]''),
            inlineDataPart (JStr ''AAA'') (JStr ''image/png'')]"
    using media_header [of ?p2 toolT noStringify ?p2 "[?img]"
             "[[inlineDataPart (JStr ''AAA'') (JStr ''image/png'')]]" "[?p1, ?p2]"
             "[[textPart (JStr ''First response'')],
               [textPart (JStr ''[Response from t (s MCP Server)]''),
                inlineDataPart (JStr ''AAA'') (JStr ''image/png'')]]"] o1 o2 fl
    by simp
  from a pm' o1 o2 w show ?thesis by blast
qed

text \<open>
  The claim as stated fails for the transformer of the second source file, which has no
  header and reads the first part of the response only: the scenario of the claim gives
  an informational text about the block in place of the header, and of two sibling parts
  the second, with the image, gives nothing at all.
\<close>

theorem media_header_counterexample:
  "transformMcpContentToParts parseNothing
     (JArr [responseOfT [mediaBlock ''image'' (JStr ''AAA'') (JStr ''image/png'')]])
   = Inr [textPart (JStr (''[Tool '' @ APOS @ ''t'' @ APOS
            @ '' provided the following image data with mime-type: image/png]'')),
          JObj [(''inlineData'',
                 JObj [(''mimeType'', JStr ''image/png''), (''data'', JStr ''AAA'')])]]
   \<and> textPart (JStr (''[Tool '' @ APOS @ ''t'' @ APOS
            @ '' provided the following image data with mime-type: image/png]''))
       \<noteq> textPart (JStr ''[Response from t (s MCP Server)]'')
   \<and> transformMcpContentToParts parseNothing
         (JArr [responseOfT [textBlock ''First response''],
                responseOfT [mediaBlock ''image'' (JStr ''AAA'') (JStr ''image/png'')]])
       = Inr [textPart (JStr ''First response'')]"
proof -
  have a: "transformMcpContentToParts parseNothing
     (JArr [responseOfT [mediaBlock ''image'' (JStr ''AAA'') (JStr ''image/png'')]])
   = Inr [textPart (JStr (''[Tool '' @ APOS @ ''t'' @ APOS
            @ '' provided the following image data with mime-type: image/png]'')),
          JObj [(''inlineData'',
                 JObj [(''mimeType'', JStr ''image/png''), (''data'', JStr ''AAA'')])]]"
    by (simp add: transformMcpContentToParts_def responseOfT_def mediaBlock_def optProp_def
          orJS_def transformBlock_def switchBlock_def textPart_def)
  have b: "textPart (JStr (''[Tool '' @ APOS @ ''t'' @ APOS
            @ '' provided the following image data with mime-type: image/png]''))
       \<noteq> textPart (JStr ''[Response from t (s MCP Server)]'')"
    by (simp add: textPart_def APOS_def)
  have c: "transformMcpContentToParts parseNothing
         (JArr [responseOfT [textBlock ''First response''],
                responseOfT [mediaBlock ''image'' (JStr ''AAA'') (JStr ''image/png'')]])
       = Inr [textPart (JStr ''First response'')]"
    by (simp add: transformMcpContentToParts_def responseOfT_def textBlock_def optProp_def
          orJS_def transformBlock_def switchBlock_def textPart_def)
  from a b c show ?thesis by blast
qed

section \<open>Resource blocks\<close>

lemma isResourceContent_True:
  "isResourceContent item = Inr True \<Longrightarrow>
   getProp item ''type'' = JStr ''resource'' \<and> \<not> nullish (getProp item ''resource'')
   \<and> typeof (getProp (getProp item ''resource'') ''uri'') = ''string''"
  by (auto simp: isResourceContent_def split: if_splits)

lemma resource_not_media:
  "getProp item ''type'' = JStr ''resource'' \<Longrightarrow> \<not> isMediaContent item"
  by (simp add: isMediaContent_def MCP_MEDIA_TYPES_def)

lemma itemOutput_resource:
  assumes "isResourceContent item = Inr True"
    and "stringConvertible (getProp (getProp item ''resource'') ''text'')"
  shows "itemOutput item =
     Inr [let resource = getProp item ''resource'' in
          if truthy (getProp resource ''blob'') \<and> truthy (getProp resource ''mimeType'')
          then inlineDataPart (getProp resource ''blob'') (getProp resource ''mimeType'')
          else if truthy (getProp resource ''text'')
          then textPart (JStr (''[Resource: '' @ toStringJS (getProp resource ''uri'') @ '']''
                               @ NL @ toStringJS (getProp resource ''text'')))
          else textPart (JStr (''[Resource: '' @ toStringJS (getProp resource ''uri'') @ '']''))]"
proof -
  from isResourceContent_True [OF assms(1)]
  have ty: "getProp item ''type'' = JStr ''resource''"
    and "typeof (getProp (getProp item ''resource'') ''uri'') = ''string''" by blast+
  then obtain u where u: "getProp (getProp item ''resource'') ''uri'' = JStr u"
    using typeof_string by blast
  have nt: "\<not> isTextContent item" using ty by (simp add: isTextContent_def)
  have nm: "\<not> isMediaContent item" using ty by (rule resource_not_media)
  show ?thesis
    using nt nm assms u
    by (simp add: itemOutput_def transformItem_def pushItem_def Let_def
          toStringOrThrow_convertible del: getProp.simps)
qed

lemma transformBlock_resource:
  assumes "getProp block ''type'' = JStr ''resource''"
  shows "transformBlock parse tn block = switchBlock tn block"
    and "\<not> nullish block"
proof -
  obtain kvs where obj: "block = JObj kvs" using assms getProp_JStr_obj by blast
  show "\<not> nullish block" by (simp add: obj)
  show "transformBlock parse tn block = switchBlock tn block"
    using assms by (simp add: transformBlock_def obj del: getProp.simps)
qed

text \<open>
  C7, as the code has it. In \<open>mcp-tool.ts\<close>, for a block of type \<open>resource\<close>
  whose resource has a string \<open>uri\<close> and a \<open>text\<close> whose conversion to a string
  does not throw (a string, for one, or none at all): when \<open>blob\<close> and \<open>mimeType\<close> are both
  present, the block gives one \<open>inlineData\<close> part with that blob and that mime type
  (the blob comes before the text, and there is no default mime type); otherwise, when
  \<open>text\<close> is present, the text part \<open>[Resource: uri]\<close>, a newline and the text;
  otherwise the text part \<open>[Resource: uri]\<close>. In the second source file, for a
  response whose content is one block of type \<open>resource\<close>, when the conversions of
  the tool name and of the mime type of the resource do not throw: when \<open>text\<close> is
  present, the text alone as a text part; otherwise, when \<open>blob\<close> is present, an
  informational text part and an \<open>inlineData\<close> part whose mime type is
  \<open>application/octet-stream\<close> when the resource has none; otherwise nothing.
\<close>

theorem resource_blocks:
  "(isResourceContent item = Inr True
    \<and> stringConvertible (getProp (getProp item ''resource'') ''text'') \<longrightarrow>
      itemOutput item =
        Inr [let resource = getProp item ''resource'' in
             if truthy (getProp resource ''blob'') \<and> truthy (getProp resource ''mimeType'')
             then inlineDataPart (getProp resource ''blob'') (getProp resource ''mimeType'')
             else if truthy (getProp resource ''text'')
             then textPart (JStr (''[Resource: '' @ toStringJS (getProp resource ''uri'') @ '']''
                                  @ NL @ toStringJS (getProp resource ''text'')))
             else textPart (JStr (''[Resource: '' @ toStringJS (getProp resource ''uri'')
                                  @ '']''))])
   \<and> (mcpContentOf raw = JArr [block] \<and> getProp block ''type'' = JStr ''resource''
       \<and> stringConvertible (toolNameOf raw)
       \<and> stringConvertible (getProp (getProp block ''resource'') ''mimeType'') \<longrightarrow>
      transformMcpContentToParts parse raw =
        Inr (let resource = getProp block ''resource'';
                 mime = orJS (getProp resource ''mimeType'') (JStr ''application/octet-stream'')
             in if truthy (optProp resource ''text'') then [textPart (getProp resource ''text'')]
                else if truthy (optProp resource ''blob'')
                then [textPart (JStr (''[Tool '' @ APOS @ toStringJS (toolNameOf raw) @ APOS
                         @ '' provided the following embedded resource with mime-type: ''
                         @ toStringJS mime @ '']'')),
                      JObj [(''inlineData'',
                             JObj [(''mimeType'', mime), (''data'', getProp resource ''blob'')])]]
                else []))"
proof -
  have a: "isResourceContent item = Inr True
    \<and> stringConvertible (getProp (getProp item ''resource'') ''text'') \<longrightarrow>
      itemOutput item =
        Inr [let resource = getProp item ''resource'' in
             if truthy (getProp resource ''blob'') \<and> truthy (getProp resource ''mimeType'')
             then inlineDataPart (getProp resource ''blob'') (getProp resource ''mimeType'')
             else if truthy (getProp resource ''text'')
             then textPart (JStr (''[Resource: '' @ toStringJS (getProp resource ''uri'') @ '']''
                                  @ NL @ toStringJS (getProp resource ''text'')))
             else textPart (JStr (''[Resource: '' @ toStringJS (getProp resource ''uri'')
                                  @ '']''))]"
    using itemOutput_resource by blast
  have b: "mcpContentOf raw = JArr [block] \<and> getProp block ''type'' = JStr ''resource''
       \<and> stringConvertible (toolNameOf raw)
       \<and> stringConvertible (getProp (getProp block ''resource'') ''mimeType'') \<longrightarrow>
      transformMcpContentToParts parse raw =
        Inr (let resource = getProp block ''resource'';
                 mime = orJS (getProp resource ''mimeType'') (JStr ''application/octet-stream'')
             in if truthy (optProp resource ''text'') then [textPart (getProp resource ''text'')]
                else if truthy (optProp resource ''blob'')
                then [textPart (JStr (''[Tool '' @ APOS @ toStringJS (toolNameOf raw) @ APOS
                         @ '' provided the following embedded resource with mime-type: ''
                         @ toStringJS mime @ '']'')),
                      JObj [(''inlineData'',
                             JObj [(''mimeType'', mime), (''data'', getProp resource ''blob'')])]]
                else [])"
  proof
    assume h: "mcpContentOf raw = JArr [block] \<and> getProp block ''type'' = JStr ''resource''
       \<and> stringConvertible (toolNameOf raw)
       \<and> stringConvertible (getProp (getProp block ''resource'') ''mimeType'')"
    then have c: "mcpContentOf raw = JArr [block]"
      and ty: "getProp block ''type'' = JStr ''resource''"
      and cn: "stringConvertible (toolNameOf raw)"
      and cm: "stringConvertible (getProp (getProp block ''resource'') ''mimeType'')"
      by blast+
    have cd: "stringConvertible (orJS (getProp (getProp block ''resource'') ''mimeType'')
                                      (JStr ''application/octet-stream''))"
      using cm by (simp add: orJS_def)
    note tb = transformBlock_resource [OF ty]
    show "transformMcpContentToParts parse raw =
        Inr (let resource = getProp block ''resource'';
                 mime = orJS (getProp resource ''mimeType'') (JStr ''application/octet-stream'')
             in if truthy (optProp resource ''text'') then [textPart (getProp resource ''text'')]
                else if truthy (optProp resource ''blob'')
                then [textPart (JStr (''[Tool '' @ APOS @ toStringJS (toolNameOf raw) @ APOS
                         @ '' provided the following embedded resource with mime-type: ''
                         @ toStringJS mime @ '']'')),
                      JObj [(''inlineData'',
                             JObj [(''mimeType'', mime), (''data'', getProp resource ''blob'')])]]
                else [])"
      using ty tb(2) cn cd
      by (simp add: mcpContentOf_eq c tb(1) switchBlock_def Let_def textPart_def
               toStringOrThrow_convertible del: getProp.simps)
  qed
  from a b show ?thesis by blast
qed

text \<open>
  A resource with text and blob, one with text only and one with a blob and no mime
  type.
\<close>

theorem resource_blocks_witness:
  "itemOutput bothResource = Inr [inlineDataPart (JStr ''QUJD'') (JStr ''image/png'')]
   \<and> itemOutput textResource = Inr [textPart (JStr (''[Resource: file:///r]'' @ NL @ ''T''))]
   \<and> itemOutput blobResource = Inr [textPart (JStr ''[Resource: file:///r]'')]
   \<and> transformMcpContentToParts parseNothing (JArr [mockResponse [bothResource]])
       = Inr [textPart (JStr ''T'')]
   \<and> transformMcpContentToParts parseNothing (JArr [mockResponse [blobResource]])
       = Inr [textPart (JStr (''[Tool '' @ APOS @ ''actual-server-tool-name'' @ APOS
                @ '' provided the following embedded resource with mime-type: ''
                @ ''application/octet-stream]'')),
              JObj [(''inlineData'', JObj [(''mimeType'', JStr ''application/octet-stream''),
                                            (''data'', JStr ''QUJD'')])]]"
proof -
  have r: "isResourceContent bothResource = Inr True" "isResourceContent textResource = Inr True"
    "isResourceContent blobResource = Inr True"
    by (simp_all add: isResourceContent_def bothResource_def textResource_def blobResource_def
          resourceBlock_def)
  have c: "mcpContentOf (JArr [mockResponse [bothResource]]) = JArr [bothResource]"
    "mcpContentOf (JArr [mockResponse [blobResource]]) = JArr [blobResource]"
    by (simp_all add: mcpContentOf_def mockResponse_def optProp_def)
  have tn: "\<And>bs. toolNameOf (JArr [mockResponse bs]) = JStr ''actual-server-tool-name''"
    by (simp add: toolNameOf_def mockResponse_def optProp_def orJS_def)
  have a1: "itemOutput bothResource = Inr [inlineDataPart (JStr ''QUJD'') (JStr ''image/png'')]"
    using resource_blocks [of bothResource] r(1)
    by (simp add: bothResource_def resourceBlock_def)
  have a2: "itemOutput textResource = Inr [textPart (JStr (''[Resource: file:///r]'' @ NL @ ''T''))]"
    using resource_blocks [of textResource] r(2)
    by (simp add: textResource_def resourceBlock_def)
  have a3: "itemOutput blobResource = Inr [textPart (JStr ''[Resource: file:///r]'')]"
    using resource_blocks [of blobResource] r(3)
    by (simp add: blobResource_def resourceBlock_def)
  have b1: "transformMcpContentToParts parseNothing (JArr [mockResponse [bothResource]])
       = Inr [textPart (JStr ''T'')]"
    using resource_blocks [of bothResource "JArr [mockResponse [bothResource]]" bothResource
             parseNothing] c(1) tn
    by (simp add: bothResource_def resourceBlock_def optProp_def)
  have b2: "transformMcpContentToParts parseNothing (JArr [mockResponse [blobResource]])
       = Inr [textPart (JStr (''[Tool '' @ APOS @ ''actual-server-tool-name'' @ APOS
                @ '' provided the following embedded resource with mime-type: ''
                @ ''application/octet-stream]'')),
              JObj [(''inlineData'', JObj [(''mimeType'', JStr ''application/octet-stream''),
                                            (''data'', JStr ''QUJD'')])]]"
    using resource_blocks [of blobResource "JArr [mockResponse [blobResource]]" blobResource
             parseNothing] c(2) tn
    by (simp add: blobResource_def resourceBlock_def optProp_def orJS_def)
  from a1 a2 a3 b1 b2 show ?thesis by blast
qed

text \<open>
  The claim as stated fails in both source files. In \<open>mcp-tool.ts\<close> a resource with
  text, blob and mime type gives the \<open>inlineData\<close> part, not the text, and a blob
  without mime type gives \<open>[Resource: uri]\<close>, not an \<open>inlineData\<close> part with
  the default type. In the second source file the text of a resource is emitted without
  the \<open>[Resource: uri]\<close> line, and a resource with a \<open>uri\<close> only gives
  nothing. And in \<open>mcp-tool.ts\<close> a resource whose text is an object with a property
  named \<open>toString\<close> makes the transformer throw.
\<close>

theorem resource_blocks_counterexample:
  "transformMcpResponse mockTool [mockResponse [bothResource]]
     = Inr [responseHeader mockTool, inlineDataPart (JStr ''QUJD'') (JStr ''image/png'')]
   \<and> transformMcpResponse mockTool [mockResponse [blobResource]]
     = Inr [textPart (JStr ''[Resource: file:///r]'')]
   \<and> transformMcpContentToParts parseNothing (JArr [mockResponse [textResource]])
     = Inr [textPart (JStr ''T'')]
   \<and> textPart (JStr ''T'') \<noteq> textPart (JStr (''[Resource: file:///r]'' @ NL @ ''T''))
   \<and> transformMcpContentToParts parseNothing
        (JArr [mockResponse [resourceBlock [(''uri'', JStr ''file:///r'')]]])
     = Inr []
   \<and> transformMcpResponse mockTool [mockResponse [unshownResource]] = Inl TypeError"
proof -
  have r: "isResourceContent bothResource = Inr True"
    "isResourceContent blobResource = Inr True"
    by (simp_all add: isResourceContent_def bothResource_def blobResource_def resourceBlock_def)
  have o1: "itemOutput bothResource = Inr [inlineDataPart (JStr ''QUJD'') (JStr ''image/png'')]"
    using itemOutput_resource [OF r(1)] by (simp add: bothResource_def resourceBlock_def)
  have o2: "itemOutput blobResource = Inr [textPart (JStr ''[Resource: file:///r]'')]"
    using itemOutput_resource [OF r(2)] by (simp add: blobResource_def resourceBlock_def)
  have a: "transformMcpResponse mockTool [mockResponse [bothResource]]
     = Inr [responseHeader mockTool, inlineDataPart (JStr ''QUJD'') (JStr ''image/png'')]"
    using respondsWith_single [of "mockResponse [bothResource]" bothResource _ mockTool] o1
    by (simp add: transformMcpResponse_eq headerIf_def)
  have b: "transformMcpResponse mockTool [mockResponse [blobResource]]
     = Inr [textPart (JStr ''[Resource: file:///r]'')]"
    using respondsWith_single [of "mockResponse [blobResource]" blobResource _ mockTool] o2
    by (simp add: transformMcpResponse_eq headerIf_def)
  have c: "transformMcpContentToParts parseNothing (JArr [mockResponse [textResource]])
     = Inr [textPart (JStr ''T'')]"
    by (simp add: transformMcpContentToParts_def mockResponse_def optProp_def orJS_def
          textResource_def resourceBlock_def transformBlock_def switchBlock_def textPart_def)
  have d: "textPart (JStr ''T'') \<noteq> textPart (JStr (''[Resource: file:///r]'' @ NL @ ''T''))"
    by (simp add: textPart_def)
  have e: "transformMcpContentToParts parseNothing
        (JArr [mockResponse [resourceBlock [(''uri'', JStr ''file:///r'')]]])
     = Inr []"
    by (simp add: transformMcpContentToParts_def mockResponse_def optProp_def orJS_def
          resourceBlock_def transformBlock_def switchBlock_def)
  have f: "transformMcpResponse mockTool [mockResponse [unshownResource]] = Inl TypeError"
    by (simp add: transformMcpResponse_def transformPart_def mockResponse_def optProp_def
          unshownResource_def resourceBlock_def transformItem_def isTextContent_def
          isMediaContent_def isResourceContent_def toStringOrThrow_def Let_def unshown_def)
  from a b c d e f show ?thesis by blast
qed

section \<open>Untyped text blocks\<close>

lemma switchBlock_untyped:
  "\<not> nullish b \<Longrightarrow> \<not> truthy (getProp b ''type'') \<Longrightarrow> switchBlock tn b = Inr JNull"
  by (auto simp: switchBlock_def Let_def)

lemma transformBlock_typed:
  "truthy (getProp b ''type'') \<Longrightarrow> transformBlock parse tn b = switchBlock tn b"
  by (cases b) (simp_all add: transformBlock_def)

lemma transformBlock_legacy:
  assumes "getProp block ''text'' = JStr s" "s \<noteq> []" "\<not> truthy (getProp block ''type'')"
  shows "transformBlock parse tn block =
     (case parse s of None \<Rightarrow> Inr (textPart (JStr s)) | Some b \<Rightarrow> switchBlock tn b)"
proof -
  obtain kvs where obj: "block = JObj kvs" using assms(1) getProp_JStr_obj by blast
  show ?thesis
    using assms by (simp add: transformBlock_def obj split: option.splits del: getProp.simps)
qed

lemma itemOutput_untyped: "\<not> hasKey ''type'' block \<Longrightarrow> itemOutput block = Inr []"
  by (simp add: itemOutput_def transformItem_def isTextContent_def isMediaContent_def
        isResourceContent_def)

text \<open>
  C8, as the code has it. In the second source file, for a block without a type whose
  \<open>text\<close> is a non-empty string, the text is handed to \<open>JSON.parse\<close>. When the
  parse fails, the block gives the raw string as a text part. When it succeeds with a
  block that carries a type, the block is processed as that block would be had it been
  received directly. When it succeeds with a value other than \<open>null\<close> that carries
  no type (another untyped text block, for instance), the block gives nothing: the parsed
  value goes to the switch over its type and is not unwrapped a second time. In \<open>mcp-tool.ts\<close> nothing is
  parsed: a block without a \<open>type\<close> property pushes nothing, and a response whose
  content is such a block alone is returned as it is.
\<close>

theorem legacy_text_block:
  "(getProp block ''text'' = JStr s \<and> s \<noteq> [] \<and> \<not> truthy (getProp block ''type'') \<longrightarrow>
      (parse s = None \<longrightarrow>
         transformBlock parse tn block = Inr (textPart (JStr s))
         \<and> (mcpContentOf raw = JArr [block] \<longrightarrow>
              transformMcpContentToParts parse raw = Inr [textPart (JStr s)]))
      \<and> (parse s = Some b \<and> truthy (getProp b ''type'') \<longrightarrow>
           transformBlock parse tn block = transformBlock parse tn b)
      \<and> (parse s = Some b \<and> \<not> nullish b \<and> \<not> truthy (getProp b ''type'') \<longrightarrow>
           transformBlock parse tn block = Inr JNull
           \<and> (mcpContentOf raw = JArr [block] \<longrightarrow> transformMcpContentToParts parse raw = Inr [])))
   \<and> (\<not> hasKey ''type'' block \<and> respondsWith part [block] \<longrightarrow>
        transformMcpResponse t [part] = Inr [part])"
proof -
  have a: "getProp block ''text'' = JStr s \<and> s \<noteq> [] \<and> \<not> truthy (getProp block ''type'') \<longrightarrow>
      (parse s = None \<longrightarrow>
         transformBlock parse tn block = Inr (textPart (JStr s))
         \<and> (mcpContentOf raw = JArr [block] \<longrightarrow>
              transformMcpContentToParts parse raw = Inr [textPart (JStr s)]))
      \<and> (parse s = Some b \<and> truthy (getProp b ''type'') \<longrightarrow>
           transformBlock parse tn block = transformBlock parse tn b)
      \<and> (parse s = Some b \<and> \<not> nullish b \<and> \<not> truthy (getProp b ''type'') \<longrightarrow>
           transformBlock parse tn block = Inr JNull
           \<and> (mcpContentOf raw = JArr [block] \<longrightarrow> transformMcpContentToParts parse raw = Inr []))"
  proof
    assume h: "getProp block ''text'' = JStr s \<and> s \<noteq> [] \<and> \<not> truthy (getProp block ''type'')"
    then have tb: "\<And>tn. transformBlock parse tn block =
       (case parse s of None \<Rightarrow> Inr (textPart (JStr s)) | Some b \<Rightarrow> switchBlock tn b)"
      using transformBlock_legacy by blast
    have n: "parse s = None \<longrightarrow>
         transformBlock parse tn block = Inr (textPart (JStr s))
         \<and> (mcpContentOf raw = JArr [block] \<longrightarrow>
              transformMcpContentToParts parse raw = Inr [textPart (JStr s)])"
      by (simp add: tb mcpContentOf_eq textPart_def)
    have ty: "parse s = Some b \<and> truthy (getProp b ''type'') \<longrightarrow>
           transformBlock parse tn block = transformBlock parse tn b"
      by (simp add: tb transformBlock_typed)
    have un: "parse s = Some b \<and> \<not> nullish b \<and> \<not> truthy (getProp b ''type'') \<longrightarrow>
           transformBlock parse tn block = Inr JNull
           \<and> (mcpContentOf raw = JArr [block] \<longrightarrow> transformMcpContentToParts parse raw = Inr [])"
      by (simp add: tb switchBlock_untyped mcpContentOf_eq)
    from n ty un show "(parse s = None \<longrightarrow>
         transformBlock parse tn block = Inr (textPart (JStr s))
         \<and> (mcpContentOf raw = JArr [block] \<longrightarrow>
              transformMcpContentToParts parse raw = Inr [textPart (JStr s)]))
      \<and> (parse s = Some b \<and> truthy (getProp b ''type'') \<longrightarrow>
           transformBlock parse tn block = transformBlock parse tn b)
      \<and> (parse s = Some b \<and> \<not> nullish b \<and> \<not> truthy (getProp b ''type'') \<longrightarrow>
           transformBlock parse tn block = Inr JNull
           \<and> (mcpContentOf raw = JArr [block] \<longrightarrow> transformMcpContentToParts parse raw = Inr []))"
      by blast
  qed
  have c: "\<not> hasKey ''type'' block \<and> respondsWith part [block] \<longrightarrow>
        transformMcpResponse t [part] = Inr [part]"
  proof
    assume h: "\<not> hasKey ''type'' block \<and> respondsWith part [block]"
    then have io: "itemOutput block = Inr []" using itemOutput_untyped by blast
    from h have r: "respondsWith part [block]" by blast
    from respondsWith_single [OF r io, of t]
    show "transformMcpResponse t [part] = Inr [part]"
      by (simp add: transformMcpResponse_eq)
  qed
  from a c show ?thesis by blast
qed

text \<open>
  The old-format response of the tests, a wrapped text block, and a wrapped untyped
  block.
\<close>

theorem legacy_text_block_witness:
  "transformMcpContentToParts parseTyped (JArr [mockResponse [legacyBlock ''Simple text response'']])
     = Inr [textPart (JStr ''Simple text response'')]
   \<and> transformBlock parseTyped (JStr ''x'') (legacyBlock typedHello)
     = transformBlock parseTyped (JStr ''x'') (textBlock ''hello'')
   \<and> transformBlock parseWrapped (JStr ''x'') (legacyBlock wrappedHello) = Inr JNull
   \<and> transformMcpContentToParts parseWrapped (JArr [mockResponse [legacyBlock wrappedHello]])
     = Inr []
   \<and> transformMcpResponse mockTool [mockResponse [legacyBlock ''Simple text response'']]
     = Inr [mockResponse [legacyBlock ''Simple text response'']]"
proof -
  have c: "mcpContentOf (JArr [mockResponse [legacyBlock ''Simple text response'']])
             = JArr [legacyBlock ''Simple text response'']"
    by (simp add: mcpContentOf_def mockResponse_def optProp_def)
  have p1: "parseTyped ''Simple text response'' = None"
    by (simp add: parseTyped_def typedHello_def)
  have p2: "parseTyped typedHello = Some (textBlock ''hello'')"
    by (simp add: parseTyped_def)
  have p3: "parseWrapped wrappedHello = Some (legacyBlock ''hello'')"
    by (simp add: parseWrapped_def)
  have ne: "typedHello \<noteq> []" "wrappedHello \<noteq> []"
    by (simp_all add: typedHello_def wrappedHello_def)
  have a: "transformMcpContentToParts parseTyped
             (JArr [mockResponse [legacyBlock ''Simple text response'']])
     = Inr [textPart (JStr ''Simple text response'')]"
    using legacy_text_block
      [of "legacyBlock ''Simple text response''" "''Simple text response''" parseTyped _
          "JArr [mockResponse [legacyBlock ''Simple text response'']]"] c p1
    by (simp add: legacyBlock_def)
  have b: "transformBlock parseTyped (JStr ''x'') (legacyBlock typedHello)
     = transformBlock parseTyped (JStr ''x'') (textBlock ''hello'')"
    using legacy_text_block
      [of "legacyBlock typedHello" typedHello parseTyped "JStr ''x''" _ "textBlock ''hello''"]
      p2 ne
    by (simp add: legacyBlock_def textBlock_def)
  have c': "mcpContentOf (JArr [mockResponse [legacyBlock wrappedHello]])
              = JArr [legacyBlock wrappedHello]"
    by (simp add: mcpContentOf_def mockResponse_def optProp_def)
  have d: "transformBlock parseWrapped (JStr ''x'') (legacyBlock wrappedHello) = Inr JNull
           \<and> transformMcpContentToParts parseWrapped
                 (JArr [mockResponse [legacyBlock wrappedHello]]) = Inr []"
    using legacy_text_block
      [of "legacyBlock wrappedHello" wrappedHello parseWrapped "JStr ''x''"
          "JArr [mockResponse [legacyBlock wrappedHello]]" "legacyBlock ''hello''"] p3 ne c'
    by (simp add: legacyBlock_def)
  have e: "transformMcpResponse mockTool [mockResponse [legacyBlock ''Simple text response'']]
     = Inr [mockResponse [legacyBlock ''Simple text response'']]"
    using legacy_text_block
      [of "legacyBlock ''Simple text response''" _ _ _ _ _
          "mockResponse [legacyBlock ''Simple text response'']" mockTool]
    by (simp add: legacyBlock_def)
  from a b d e show ?thesis by blast
qed

text \<open>
  The claim as stated fails: the JSON text of the untyped block \<open>{text: hello}\<close>
  parses, and the wrapper gives nothing, whereas the parsed block received directly gives
  the text part \<open>hello\<close>; and an untyped block whose text is the empty string, which
  does not parse, gives nothing rather than an empty text part.
\<close>

theorem legacy_text_block_counterexample:
  "parseWrapped wrappedHello = Some (legacyBlock ''hello'')
   \<and> transformMcpContentToParts parseWrapped (JArr [mockResponse [legacyBlock wrappedHello]])
       = Inr []
   \<and> transformMcpContentToParts parseWrapped (JArr [mockResponse [legacyBlock ''hello'']])
       = Inr [textPart (JStr ''hello'')]
   \<and> parseWrapped [] = None
   \<and> transformMcpContentToParts parseWrapped (JArr [mockResponse [legacyBlock []]]) = Inr []"
proof -
  have p: "parseWrapped wrappedHello = Some (legacyBlock ''hello'')"
    "parseWrapped ''hello'' = None" "parseWrapped [] = None"
    by (simp_all add: parseWrapped_def wrappedHello_def)
  have ne: "wrappedHello \<noteq> []" by (simp add: wrappedHello_def)
  have c: "\<And>b. mcpContentOf (JArr [mockResponse [b]]) = JArr [b]"
    by (simp add: mcpContentOf_def mockResponse_def optProp_def)
  have t1: "\<And>tn. transformBlock parseWrapped tn (legacyBlock wrappedHello) = Inr JNull"
    using p(1) ne
    by (simp add: transformBlock_legacy [of _ wrappedHello] legacyBlock_def switchBlock_untyped)
  have t2: "\<And>tn. transformBlock parseWrapped tn (legacyBlock ''hello'')
              = Inr (textPart (JStr ''hello''))"
    using p(2) by (simp add: transformBlock_legacy [of _ "''hello''"] legacyBlock_def)
  have t3: "\<And>tn. transformBlock parseWrapped tn (legacyBlock []) = Inr JNull"
    by (simp add: transformBlock_def legacyBlock_def switchBlock_def)
  have a: "transformMcpContentToParts parseWrapped (JArr [mockResponse [legacyBlock wrappedHello]])
       = Inr []"
    by (simp add: mcpContentOf_eq c t1)
  have b: "transformMcpContentToParts parseWrapped (JArr [mockResponse [legacyBlock ''hello'']])
       = Inr [textPart (JStr ''hello'')]"
    by (simp add: mcpContentOf_eq c t2 textPart_def)
  have d: "transformMcpContentToParts parseWrapped (JArr [mockResponse [legacyBlock []]]) = Inr []"
    by (simp add: mcpContentOf_eq c t3)
  from p a b d show ?thesis by blast
qed

section \<open>Totality of the summarizers\<close>

lemma noOwnToString_convertible: "noOwnToString v \<Longrightarrow> stringConvertible v"
  by (induction v rule: stringConvertible.induct) (simp_all add: list_all_iff)

lemma noOwnToString_getProp: "noOwnToString v \<Longrightarrow> noOwnToString (getProp v k)"
proof (cases v)
  case (JObj kvs)
  assume n: "noOwnToString v"
  show ?thesis
  proof (cases "map_of kvs k")
    case None
    then show ?thesis by (simp add: JObj)
  next
    case (Some x)
    then have "x \<in> snd ` set kvs"
      by (auto dest: map_of_SomeD intro: rev_image_eqI)
    with n have "noOwnToString x"
      by (auto simp: JObj list_all_iff)
    with Some show ?thesis by (simp add: JObj)
  qed
qed simp_all

lemma noOwnToString_optProp: "noOwnToString v \<Longrightarrow> noOwnToString (optProp v k)"
  by (simp add: optProp_def noOwnToString_getProp)

lemma noOwnToString_orJS:
  "noOwnToString a \<Longrightarrow> noOwnToString b \<Longrightarrow> noOwnToString (orJS a b)"
  by (simp add: orJS_def)

lemma labelled_total: "noOwnToString v \<Longrightarrow> \<exists>s. labelled label v = Inr (JStr s)"
  by (simp add: labelled_def toStringOrThrow_convertible noOwnToString_convertible)

lemma mapE_total:
  "\<forall>x \<in> set xs. \<exists>y. f x = Inr y \<and> P y \<Longrightarrow>
   \<exists>ys. mapE f xs = Inr ys \<and> (\<forall>y \<in> set ys. P y)"
proof (induction xs)
  case Nil
  show ?case by simp
next
  case (Cons x xs)
  then obtain y ys where "f x = Inr y" "P y" "mapE f xs = Inr ys" "\<forall>y \<in> set ys. P y"
    by auto
  then show ?case by simp
qed

lemma joinJS_total: "\<forall>x \<in> set xs. noOwnToString x \<Longrightarrow> \<exists>s. joinJS sep xs = Inr s"
  by (simp add: joinJS_def list_all_iff noOwnToString_convertible)

lemma displayBlock_total:
  assumes "\<not> nullish b" "noOwnToString b"
  shows "\<exists>v. displayBlock b = Inr v \<and> noOwnToString v"
proof -
  note g = noOwnToString_getProp [OF assms(2)]
  have l: "\<And>label v. noOwnToString v \<Longrightarrow> \<exists>w. labelled label v = Inr w \<and> noOwnToString w"
    using labelled_total by fastforce
  have c: "\<And>v. noOwnToString v \<Longrightarrow> toStringOrThrow v = Inr (toStringJS v)"
    by (simp add: toStringOrThrow_convertible noOwnToString_convertible)
  have o: "noOwnToString (orJS (getProp b ''title'') (getProp b ''name''))"
    "noOwnToString (orJS (optProp (getProp b ''resource'') ''mimeType'') (JStr ''unknown type''))"
    using g by (simp_all add: noOwnToString_orJS noOwnToString_optProp noOwnToString_getProp)
  show ?thesis
    using assms(1) g l o
    by (simp add: displayBlock_def Let_def c noOwnToString_getProp)
qed

lemma processContentItem_total:
  assumes "noOwnToString item"
  shows "\<exists>v. processContentItem item = Inr v"
proof -
  have l: "\<And>label. \<exists>v. labelled label (getProp item ''mimeType'') = Inr v"
    using labelled_total [OF noOwnToString_getProp [OF assms]] by blast
  show ?thesis
    by (simp add: processContentItem_def l)
qed

lemma elems_noOwnToString: "noOwnToString v \<Longrightarrow> \<forall>x \<in> set (elems v). noOwnToString x"
  by (cases v) (simp_all add: list_all_iff)

lemma processFunctionResponse_total:
  assumes "\<not> nullish p" "noOwnToString p"
  shows "\<exists>v. processFunctionResponse p = Inr v"
proof -
  let ?c = "optProp (getProp (getProp p ''functionResponse'') ''response'') ''content''"
  have "noOwnToString ?c"
    using assms(2) by (simp add: noOwnToString_optProp noOwnToString_getProp)
  then have "\<forall>x \<in> set (elems ?c). \<exists>y. processContentItem x = Inr y \<and> True"
    using elems_noOwnToString processContentItem_total by auto
  then obtain ys where ys: "mapE processContentItem (elems ?c) = Inr ys"
    using mapE_total [of "elems ?c" processContentItem "\<lambda>y. True"] by blast
  have j: "list_all (\<lambda>item. typeof item = ''string'') ys \<Longrightarrow> \<exists>s. joinJS NL ys = Inr s"
    using joinJS_strings [of ys NL] by (simp add: list_all_iff)
  show ?thesis
  proof (cases "list_all (\<lambda>item. typeof item = ''string'') ys")
    case True
    with j obtain s where "joinJS NL ys = Inr s" by blast
    then show ?thesis
      using assms(1) ys True by (simp add: processFunctionResponse_def Let_def)
  next
    case False
    then show ?thesis
      using assms(1) ys by (simp add: processFunctionResponse_def Let_def)
  qed
qed

lemma shown_total:
  "\<exists>s. (case r of JStr text \<Rightarrow> Inr text | v \<Rightarrow> Inr (fence (stringify v)))
          = (Inr s :: error + string)"
  by (cases r) simp_all

lemma display_total:
  assumes "\<forall>p \<in> set parts. \<not> nullish p \<and> noOwnToString p"
  shows "\<exists>s. getStringifiedResultForDisplay stringify parts = Inr s"
proof (cases "length parts = 0")
  case True
  then show ?thesis by (simp add: getStringifiedResultForDisplay_def)
next
  case False
  show ?thesis
  proof (cases "length parts = 1")
    case True
    then obtain p where p: "parts = [p]" by (cases parts) auto
    with assms obtain v where "processFunctionResponse p = Inr v"
      using processFunctionResponse_total by auto
    then show ?thesis
      using shown_total [where r = v and stringify = stringify] by (simp add: p display_single)
  next
    case many: False
    from assms have "\<forall>p \<in> set parts. \<exists>v. processFunctionResponse p = Inr v \<and> True"
      using processFunctionResponse_total by auto
    then obtain vs where "mapE processFunctionResponse parts = Inr vs"
      using mapE_total [of parts processFunctionResponse "\<lambda>y. True"] by blast
    then show ?thesis
      using False many by (simp add: getStringifiedResultForDisplay_def)
  qed
qed

text \<open>
  C9, as the code has it. The summarizer of the second source file returns the fenced
  rendering of the raw response whenever the content it extracts is not an array. When
  the content is an array none of whose blocks is \<open>null\<close> or \<open>undefined\<close> and in
  which no object has an own property named \<open>toString\<close>, it returns a string. The
  summarizer of \<open>mcp-tool.ts\<close> returns a string for every list of parts none of which
  is \<open>null\<close> or \<open>undefined\<close> and in which no object has an own property named
  \<open>toString\<close>; for a single part whose function response is an object without a
  content array, the string is the fenced rendering of that function response.
\<close>

theorem summarizer_total:
  "(\<not> isArray (mcpContentOf raw) \<longrightarrow>
      getStringifiedResultForDisplay_part_000 stringify raw = Inr (fence (stringify raw)))
   \<and> (noOwnToString (mcpContentOf raw)
       \<and> (\<forall>b \<in> set (elems (mcpContentOf raw)). \<not> nullish b) \<longrightarrow>
      (\<exists>s. getStringifiedResultForDisplay_part_000 stringify raw = Inr s))
   \<and> ((\<forall>p \<in> set parts. \<not> nullish p \<and> noOwnToString p) \<longrightarrow>
      (\<exists>s. getStringifiedResultForDisplay stringify parts = Inr s))
   \<and> (keptAsIs p \<and> typeof (getProp p ''functionResponse'') = ''object''
       \<and> truthy (getProp p ''functionResponse'') \<longrightarrow>
      getStringifiedResultForDisplay stringify [p]
        = Inr (fence (stringify (getProp p ''functionResponse''))))"
proof -
  have a: "\<not> isArray (mcpContentOf raw) \<longrightarrow>
      getStringifiedResultForDisplay_part_000 stringify raw = Inr (fence (stringify raw))"
    by (simp add: display_part_000_eq)
  have b: "noOwnToString (mcpContentOf raw)
       \<and> (\<forall>b \<in> set (elems (mcpContentOf raw)). \<not> nullish b) \<longrightarrow>
      (\<exists>s. getStringifiedResultForDisplay_part_000 stringify raw = Inr s)"
  proof
    assume h: "noOwnToString (mcpContentOf raw)
       \<and> (\<forall>b \<in> set (elems (mcpContentOf raw)). \<not> nullish b)"
    then have "\<forall>b \<in> set (elems (mcpContentOf raw)).
                 \<exists>v. displayBlock b = Inr v \<and> noOwnToString v"
      using elems_noOwnToString displayBlock_total by blast
    then obtain vs where vs: "mapE displayBlock (elems (mcpContentOf raw)) = Inr vs"
        "\<forall>v \<in> set vs. noOwnToString v"
      using mapE_total [of "elems (mcpContentOf raw)" displayBlock noOwnToString] by blast
    then obtain s where "joinJS NL vs = Inr s"
      using joinJS_total by blast
    with vs(1) show "\<exists>s. getStringifiedResultForDisplay_part_000 stringify raw = Inr s"
      by (simp add: display_part_000_eq)
  qed
  have d: "(\<forall>p \<in> set parts. \<not> nullish p \<and> noOwnToString p) \<longrightarrow>
      (\<exists>s. getStringifiedResultForDisplay stringify parts = Inr s)"
    using display_total by blast
  have e: "keptAsIs p \<and> typeof (getProp p ''functionResponse'') = ''object''
       \<and> truthy (getProp p ''functionResponse'') \<longrightarrow>
      getStringifiedResultForDisplay stringify [p]
        = Inr (fence (stringify (getProp p ''functionResponse'')))"
  proof
    assume h: "keptAsIs p \<and> typeof (getProp p ''functionResponse'') = ''object''
       \<and> truthy (getProp p ''functionResponse'')"
    then have pr: "processFunctionResponse p = Inr (getProp p ''functionResponse'')"
      by (auto simp: processFunctionResponse_def keptAsIs_def Let_def dest: isArray_truthy)
    from h have "typeof (getProp p ''functionResponse'') = ''object''" by blast
    then show "getStringifiedResultForDisplay stringify [p]
        = Inr (fence (stringify (getProp p ''functionResponse'')))"
      by (cases "getProp p ''functionResponse''") (simp_all add: display_single pr)
  qed
  from a b d e show ?thesis by blast
qed

text \<open>
  A raw response without parts, a content with a block that is a string, a list of two
  parts, and a function response without fields.
\<close>

theorem summarizer_total_witness:
  "getStringifiedResultForDisplay_part_000 stringifyEmpty (JArr []) = Inr (fence ''[]'')
   \<and> getStringifiedResultForDisplay_part_000 stringifyEmpty
        (JArr [mockResponse [textBlock ''a'', JStr ''b'']])
       = Inr (''a'' @ NL @ ''[Unknown content type: undefined]'')
   \<and> (\<exists>s. getStringifiedResultForDisplay stringifyEmpty [mockResponse [JNull], JStr ''b'']
               = Inr s)
   \<and> getStringifiedResultForDisplay stringifyEmpty [bareResponse] = Inr (fence ''{}'')"
proof -
  have c: "\<And>bs. mcpContentOf (JArr [mockResponse bs]) = JArr bs"
    by (simp add: mcpContentOf_def mockResponse_def optProp_def)
  have c0: "mcpContentOf (JArr []) = JUndefined"
    by (simp add: mcpContentOf_def optProp_def)
  have k: "keptAsIs bareResponse"
    by (simp add: keptAsIs_def bareResponse_def optProp_def)
  have n: "\<not> nullish (mockResponse [JNull])" "noOwnToString (mockResponse [JNull])"
    by (simp_all add: mockResponse_def)
  have n2: "noOwnToString (JArr [textBlock ''a'', JStr ''b''])"
    by (simp add: textBlock_def)
  note t1 = summarizer_total [of "JArr []" stringifyEmpty]
  note t2 = summarizer_total [of "JArr [mockResponse [textBlock ''a'', JStr ''b'']]" stringifyEmpty]
  note t4 = summarizer_total [of "JArr []" stringifyEmpty
                                 "[mockResponse [JNull], JStr ''b'']" bareResponse]
  have a1: "getStringifiedResultForDisplay_part_000 stringifyEmpty (JArr []) = Inr (fence ''[]'')"
    using t1 c0 by (simp add: stringifyEmpty_def)
  have a2: "getStringifiedResultForDisplay_part_000 stringifyEmpty
        (JArr [mockResponse [textBlock ''a'', JStr ''b'']])
       = Inr (''a'' @ NL @ ''[Unknown content type: undefined]'')"
    using t2 n2
    by (simp add: c textBlock_def display_part_000_eq displayBlock_def joinJS_def labelled_def)
  have a4: "\<exists>s. getStringifiedResultForDisplay stringifyEmpty [mockResponse [JNull], JStr ''b'']
               = Inr s"
    using t4 n by simp
  have a5: "getStringifiedResultForDisplay stringifyEmpty [bareResponse] = Inr (fence ''{}'')"
    using t4 k by (simp add: bareResponse_def stringifyEmpty_def)
  from a1 a2 a4 a5 show ?thesis by blast
qed

text \<open>
  The claim as stated fails: the summarizer of the second source file throws on a
  content array that holds \<open>null\<close>, and the one of \<open>mcp-tool.ts\<close> throws on a
  list of parts that holds \<open>null\<close>; both throw on an image block whose mime type is
  an object with a property named \<open>toString\<close>.
\<close>

theorem summarizer_total_counterexample:
  "getStringifiedResultForDisplay_part_000 noStringify (JArr [mockResponse [JNull]])
     = Inl TypeError
   \<and> getStringifiedResultForDisplay noStringify [JNull] = Inl TypeError
   \<and> getStringifiedResultForDisplay_part_000 noStringify (JArr [mockResponse [unshownImage]])
     = Inl TypeError
   \<and> getStringifiedResultForDisplay noStringify [mockResponse [unshownImage]] = Inl TypeError"
proof -
  have a: "getStringifiedResultForDisplay_part_000 noStringify (JArr [mockResponse [JNull]])
     = Inl TypeError"
    by (simp add: getStringifiedResultForDisplay_part_000_def mockResponse_def optProp_def
          displayBlock_def)
  have b: "getStringifiedResultForDisplay noStringify [JNull] = Inl TypeError"
    by (simp add: display_single processFunctionResponse_def)
  have u: "labelled ''Image'' unshown = Inl TypeError"
    by (simp add: labelled_def toStringOrThrow_def unshown_def)
  have c: "getStringifiedResultForDisplay_part_000 noStringify
             (JArr [mockResponse [unshownImage]]) = Inl TypeError"
    by (simp add: getStringifiedResultForDisplay_part_000_def mockResponse_def optProp_def
          displayBlock_def unshownImage_def mediaBlock_def u)
  have tr: "truthy unshown" by (simp add: unshown_def)
  have d: "getStringifiedResultForDisplay noStringify [mockResponse [unshownImage]]
             = Inl TypeError"
    by (simp add: display_single processFunctionResponse_def mockResponse_def optProp_def
          processContentItem_def unshownImage_def mediaBlock_def u tr)
  from a b c d show ?thesis by blast
qed

end
